theory Spec2Isabelle
  imports Complex_Main "HOL-Library.AList" "HOL-Library.Multiset" "HOL-Library.Product_Lexorder"
begin

section \<open>The EMANE manager: data model\<close>

text \<open>
  A shallow embedding of \<^verbatim>\<open>daemon/core/emane/emanemanager.py\<close>. Python objects that are
  shared and compared by identity (nodes, interfaces, EMANE networks) live in a store and
  are named by references; a dictionary is an association list in insertion order
  (\<open>map_of\<close> reads it, \<open>AList.update\<close> writes it: an existing key keeps its
  place, a new key goes to the end); Python's unbounded integers are \<open>int\<close>. A float
  that the manager receives, converts with \<^verbatim>\<open>int\<close> or \<^verbatim>\<open>round\<close>, or stores is a
  \<open>pyfloat\<close>: finite, infinite or NaN; the pixel coordinates of a node and what
  \<^verbatim>\<open>getgeo\<close> makes of them are the reals they denote. Calls of \<^verbatim>\<open>logger\<close> change
  nothing the manager can observe and are left out.
\<close>

type_synonym node_ref = nat
type_synonym iface_ref = nat
type_synonym net_ref = nat

type_synonym config = "(string \<times> string) list"

text \<open>
  The exceptions the manager raises or lets through. \<open>UnknownModel\<close> is the
  \<^verbatim>\<open>CoreError\<close> of \<^verbatim>\<open>EmaneModelManager.get\<close>, \<open>DuplicateNetwork\<close> the
  \<^verbatim>\<open>CoreError\<close> of \<^verbatim>\<open>add_node\<close> (with the id and name its message carries),
  \<open>UnknownNode\<close> the \<^verbatim>\<open>CoreError\<close> of \<^verbatim>\<open>session.get_node\<close>; the others are
  Python's own.
\<close>

datatype error =
    UnknownModel string
  | DuplicateNetwork int string
  | UnknownNode int
  | AttributeError
  | TypeError
  | ValueError
  | OverflowError

text \<open>A Python float: a finite value, an infinity or a NaN.\<close>

datatype pyfloat = Finite real | PosInf | NegInf | NaN

definition is_finite :: "pyfloat \<Rightarrow> bool" where
  "is_finite f = (case f of Finite _ \<Rightarrow> True | _ \<Rightarrow> False)"

text \<open>An EMANE model: \<^verbatim>\<open>model.name\<close> and what \<^verbatim>\<open>model.default_values()\<close> returns.\<close>

record model =
  model_name :: string
  default_values :: config

text \<open>\<^verbatim>\<open>node.position\<close>: the fields \<^verbatim>\<open>x, y, z, lon, lat, alt\<close>, each possibly \<^verbatim>\<open>None\<close>.\<close>

record position =
  pos_x :: "real option"
  pos_y :: "real option"
  pos_z :: "real option"
  pos_lon :: "pyfloat option"
  pos_lat :: "pyfloat option"
  pos_alt :: "pyfloat option"

text \<open>
  A node (\<^verbatim>\<open>NodeBase\<close>): \<open>node_is_core\<close> is \<^verbatim>\<open>isinstance(node, CoreNode)\<close>.
\<close>

record node =
  node_id :: int
  node_name :: string
  node_up :: bool
  node_is_core :: bool
  node_position :: position

datatype hook = SetNemPosition

text \<open>
  An interface (\<^verbatim>\<open>CoreInterface\<close>): \<open>iface_is_tuntap\<close> is
  \<^verbatim>\<open>isinstance(iface, TunTap)\<close>; \<^verbatim>\<open>iface.node\<close> and \<^verbatim>\<open>iface.net\<close> may be \<^verbatim>\<open>None\<close>.
\<close>

record iface =
  iface_id :: int
  iface_name :: string
  iface_node :: "node_ref option"
  iface_net :: "net_ref option"
  iface_is_tuntap :: bool
  iface_poshook :: "hook option"

text \<open>
  An EMANE network (\<^verbatim>\<open>EmaneNet\<close>): \<open>net_ifaces\<close> is what \<^verbatim>\<open>emane_net.get_ifaces()\<close>
  returns.
\<close>

record emane_net =
  net_id :: int
  net_name :: string
  wireless_model :: "model option"
  net_ifaces :: "iface_ref list"

text \<open>What the manager does to the world outside it, in the order it does it.\<close>

datatype effect =
    WriteNem string string int
  | LinkMonitorStop
  | IfaceShutdown iface_ref
  | NodeCmd node_ref string
  | HostCmd node_ref string
  | EventManagerShutdown
  | EventManagerReset
  | PublishLocations "(int \<times> real \<times> real \<times> int) list"
  | BroadcastNode node_ref

text \<open>
  The state: the object store, the session as far as the manager reads it, and the
  manager's own fields.
  \<^item> \<open>nodes\<close>, \<open>ifaces\<close>, \<open>nets\<close>: the objects behind the references.
  \<^item> \<open>opt_nem_id_start\<close>, \<open>opt_link_enabled\<close>: \<^verbatim>\<open>session.options.get_int\<close> of
    \<^verbatim>\<open>"nem_id_start"\<close> and \<^verbatim>\<open>"link_enabled"\<close>; \<open>opt_platform_port\<close> and
    \<open>opt_transform_port\<close>: the options \<^verbatim>\<open>"emane_platform_port"\<close> and
    \<^verbatim>\<open>"emane_transform_port"\<close>, \<open>None\<close> when unset.
  \<^item> \<open>session_nodes\<close>: \<^verbatim>\<open>session.nodes\<close>, from node id to node.
  \<^item> \<open>getxyz\<close>, \<open>getgeo\<close>: the projection \<^verbatim>\<open>session.location\<close>;
    \<open>get_link_color\<close>: \<^verbatim>\<open>session.get_link_color\<close>; \<open>nem_file_ok\<close>: whether the file
    \<^verbatim>\<open>emane_nems\<close> can be opened for appending. They are not part of the sources at
    hand and are parameters here, as are \<open>models\<close> (the registry
    \<^verbatim>\<open>EmaneModelManager\<close>) and \<open>iface_config_id\<close> (\<^verbatim>\<open>utils.iface_config_id\<close>).
  \<^item> the rest are the fields of \<^verbatim>\<open>EmaneManager\<close>; \<open>effects\<close> records the calls that
    leave the manager.
\<close>

record state =
  nodes :: "node_ref \<Rightarrow> node"
  ifaces :: "iface_ref \<Rightarrow> iface"
  nets :: "net_ref \<Rightarrow> emane_net"
  opt_nem_id_start :: int
  opt_link_enabled :: int
  opt_platform_port :: "int option"
  opt_transform_port :: "int option"
  session_nodes :: "(int \<times> node_ref) list"
  getxyz :: "pyfloat \<Rightarrow> pyfloat \<Rightarrow> pyfloat \<Rightarrow> pyfloat \<times> pyfloat \<times> pyfloat"
  getgeo :: "real option \<Rightarrow> real option \<Rightarrow> real option \<Rightarrow> real \<times> real \<times> real"
  get_link_color :: "int \<Rightarrow> string"
  nem_file_ok :: bool
  models :: "(string \<times> model) list"
  iface_config_id :: "int \<Rightarrow> int \<Rightarrow> int"
  nems_to_ifaces :: "(int \<times> iface_ref) list"
  ifaces_to_nems :: "(iface_ref \<times> int) list"
  emane_nets :: "(int \<times> net_ref) list"
  platformport :: int
  transformport :: int
  node_configs :: "(int \<times> (string \<times> config) list) list"
  node_models :: "(int \<times> string) list"
  effects :: "effect list"

section \<open>Configuration lookup\<close>

text \<open>
  Modelled from the spec: \<^verbatim>\<open>EmaneModelManager.get\<close>, which \<^verbatim>\<open>get_model\<close> calls, is not
  in the sources at hand; it yields the registered class of the name and fails
  (\<^verbatim>\<open>CoreError\<close>) when there is none.
\<close>

definition get_model :: "state \<Rightarrow> string \<Rightarrow> error + model" where
  "get_model s name =
     (case map_of (models s) name of
        None \<Rightarrow> Inl (UnknownModel name)
      | Some m \<Rightarrow> Inr m)"

text \<open>
  \<^verbatim>\<open>get_config(key, model, default)\<close>. \<^verbatim>\<open>if model_configs:\<close> is false for \<^verbatim>\<open>None\<close>
  and for the empty dictionary.
\<close>

definition get_config :: "state \<Rightarrow> int \<Rightarrow> string \<Rightarrow> bool \<Rightarrow> error + config option" where
  "get_config s key mname dflt =
     (case get_model s mname of
        Inl e \<Rightarrow> Inl e
      | Inr model_class \<Rightarrow>
          let model_configs = map_of (node_configs s) key;
              config = (case model_configs of
                          None \<Rightarrow> None
                        | Some mc \<Rightarrow> if mc \<noteq> [] then map_of mc mname else None)
          in Inr (if config = None \<and> dflt
                  then Some (default_values model_class) else config))"

text \<open>\<^verbatim>\<open>not config\<close> for a \<^verbatim>\<open>dict | None\<close>.\<close>

definition not_config :: "config option \<Rightarrow> bool" where
  "not_config c = (case c of None \<Rightarrow> True | Some d \<Rightarrow> d = [])"

text \<open>
  \<^verbatim>\<open>get_iface_config(emane_net, iface)\<close>. Reading \<^verbatim>\<open>.name\<close> of a missing model or
  \<^verbatim>\<open>.id\<close> of a missing node is an \<^verbatim>\<open>AttributeError\<close>.
\<close>

definition get_iface_config :: "state \<Rightarrow> net_ref \<Rightarrow> iface_ref \<Rightarrow> error + config" where
  "get_iface_config s emane_net iface =
     (case wireless_model (nets s emane_net) of
        None \<Rightarrow> Inl AttributeError
      | Some wm \<Rightarrow>
         (case iface_node (ifaces s iface) of
            None \<Rightarrow> Inl AttributeError
          | Some nd \<Rightarrow>
             (let mname = model_name wm;
                  key = iface_config_id s (node_id (nodes s nd)) (iface_id (ifaces s iface))
              in case get_config s key mname False of
                   Inl e \<Rightarrow> Inl e
                 | Inr c1 \<Rightarrow>
                    (case (if not_config c1
                           then get_config s (node_id (nodes s nd)) mname False
                           else Inr c1) of
                       Inl e \<Rightarrow> Inl e
                     | Inr c2 \<Rightarrow>
                        (case (if not_config c2
                               then get_config s (net_id (nets s emane_net)) mname False
                               else Inr c2) of
                           Inl e \<Rightarrow> Inl e
                         | Inr c3 \<Rightarrow>
                            Inr (case c3 of
                                   None \<Rightarrow> default_values wm
                                 | Some d \<Rightarrow> if d = [] then default_values wm else d))))))"

text \<open>
  The specification's reading of the lookup: what is stored for a key and a model name,
  and the first of a list of lookups that is a non-empty dictionary.
\<close>

definition stored_lookup :: "state \<Rightarrow> int \<Rightarrow> string \<Rightarrow> config option" where
  "stored_lookup s key mname =
     (case map_of (node_configs s) key of
        None \<Rightarrow> None
      | Some mc \<Rightarrow> map_of mc mname)"

fun first_non_empty :: "config option list \<Rightarrow> config \<Rightarrow> config" where
  "first_non_empty [] d = d"
| "first_non_empty (None # cs) d = first_non_empty cs d"
| "first_non_empty (Some c # cs) d = (if c = [] then first_non_empty cs d else c)"

section \<open>NEM identities\<close>

definition get_iface :: "state \<Rightarrow> int \<Rightarrow> iface_ref option" where
  "get_iface s nem_id = map_of (nems_to_ifaces s) nem_id"

definition get_nem_id :: "state \<Rightarrow> iface_ref \<Rightarrow> int option" where
  "get_nem_id s iface = map_of (ifaces_to_nems s) iface"

text \<open>
  The loop of \<^verbatim>\<open>next_nem_id\<close>: \<^verbatim>\<open>while nem_id in self.nems_to_ifaces: nem_id += 1\<close>.
  It ends because the dictionary has finitely many keys.
\<close>

function next_nem_id_loop :: "(int \<times> iface_ref) list \<Rightarrow> int \<Rightarrow> int" where
  "next_nem_id_loop d nem_id =
     (if nem_id \<in> set (map fst d) then next_nem_id_loop d (nem_id + 1) else nem_id)"
  by pat_completeness auto
termination
proof (relation "measure (\<lambda>(d, n). length (filter (\<lambda>k. n \<le> k) (map fst d)))")
  show "wf (measure (\<lambda>(d, n). length (filter (\<lambda>k. n \<le> k) (map fst d))))"
    by simp
next
  fix d :: "(int \<times> iface_ref) list" and nem_id :: int
  assume mem: "nem_id \<in> set (map fst d)"
  let ?ks = "filter (\<lambda>k. nem_id \<le> k) (map fst d)"
  have eq: "filter (\<lambda>k. nem_id + 1 \<le> k) (map fst d) = filter (\<lambda>k. nem_id + 1 \<le> k) ?ks"
    by (auto intro: filter_cong)
  have "nem_id \<in> set ?ks"
    using mem by simp
  then have "length (filter (\<lambda>k. nem_id + 1 \<le> k) ?ks) < length ?ks"
    by (rule length_filter_less) simp
  then have "length (filter (\<lambda>k. nem_id + 1 \<le> k) (map fst d)) < length ?ks"
    by (simp only: eq)
  then show "((d, nem_id + 1), (d, nem_id))
      \<in> measure (\<lambda>(d, n). length (filter (\<lambda>k. n \<le> k) (map fst d)))"
    by (simp only: in_measure prod.case)
qed

text \<open>
  \<^verbatim>\<open>write_nem\<close>: a line of the file \<^verbatim>\<open>emane_nems\<close>. An \<^verbatim>\<open>OSError\<close> is caught (and
  logged); reading \<^verbatim>\<open>iface.node.name\<close> of a missing node is not.
\<close>

definition write_nem :: "state \<Rightarrow> iface_ref \<Rightarrow> int \<Rightarrow> (error + unit) \<times> state" where
  "write_nem s iface nem_id =
     (if \<not> nem_file_ok s then (Inr (), s)
      else case iface_node (ifaces s iface) of
             None \<Rightarrow> (Inl AttributeError, s)
           | Some nd \<Rightarrow>
               (Inr (), s\<lparr>effects := effects s @
                   [WriteNem (node_name (nodes s nd)) (iface_name (ifaces s iface)) nem_id]\<rparr>))"

definition next_nem_id :: "state \<Rightarrow> iface_ref \<Rightarrow> (error + int) \<times> state" where
  "next_nem_id s iface =
     (let nem_id = next_nem_id_loop (nems_to_ifaces s) (opt_nem_id_start s);
          s1 = s\<lparr>nems_to_ifaces := AList.update nem_id iface (nems_to_ifaces s)\<rparr>;
          s2 = s1\<lparr>ifaces_to_nems := AList.update iface nem_id (ifaces_to_nems s1)\<rparr>
      in case write_nem s2 iface nem_id of
           (Inl e, s3) \<Rightarrow> (Inl e, s3)
         | (Inr _, s3) \<Rightarrow> (Inr nem_id, s3))"

text \<open>
  \<^verbatim>\<open>__init__\<close>: the manager's fields for a session. The port counters come from the
  options, with the defaults 8100 and 8200.
\<close>

definition init :: "state \<Rightarrow> state" where
  "init s = s\<lparr>nems_to_ifaces := [], ifaces_to_nems := [], emane_nets := [],
               platformport := (case opt_platform_port s of None \<Rightarrow> 8100 | Some p \<Rightarrow> p),
               transformport := (case opt_transform_port s of None \<Rightarrow> 8200 | Some p \<Rightarrow> p),
               node_configs := [], node_models := []\<rparr>"

text \<open>\<^verbatim>\<open>reset\<close>, statement by statement.\<close>

definition reset :: "state \<Rightarrow> state" where
  "reset s =
     (let s1 = s\<lparr>emane_nets := []\<rparr>;
          s2 = s1\<lparr>nems_to_ifaces := []\<rparr>;
          s3 = s2\<lparr>ifaces_to_nems := []\<rparr>;
          s4 = s3\<lparr>nems_to_ifaces := []\<rparr>
      in s4\<lparr>effects := effects s4 @ [EventManagerReset]\<rparr>)"

section \<open>The port of a NEM\<close>

text \<open>
  \<^verbatim>\<open>int(f"47{nem_id:03}")\<close>. \<open>digits\<close> is \<^verbatim>\<open>str\<close> of a natural number; \<open>format_03\<close> is
  the format \<^verbatim>\<open>03\<close>: zeros fill up to three characters, after the sign if there is one.
  \<open>py_int_of_str\<close> is \<^verbatim>\<open>int\<close> of a string made of a sign and digits (the white space
  and underscores that Python also accepts do not occur in what the format yields);
  anything else is a \<^verbatim>\<open>ValueError\<close>.
\<close>

definition digit_char :: "nat \<Rightarrow> char" where
  "digit_char d = char_of (48 + d)"

definition digit_val :: "char \<Rightarrow> nat" where
  "digit_val c = of_char c - 48"

definition is_digit :: "char \<Rightarrow> bool" where
  "is_digit c = (48 \<le> (of_char c :: nat) \<and> (of_char c :: nat) \<le> 57)"

fun digits :: "nat \<Rightarrow> string" where
  "digits n = (if n < 10 then [digit_char n]
               else digits (n div 10) @ [digit_char (n mod 10)])"

definition format_03 :: "int \<Rightarrow> string" where
  "format_03 n =
     (if n < 0
      then CHR ''-'' # replicate (2 - length (digits (nat (- n)))) CHR ''0'' @ digits (nat (- n))
      else replicate (3 - length (digits (nat n))) CHR ''0'' @ digits (nat n))"

definition digits_value :: "string \<Rightarrow> nat" where
  "digits_value s = foldl (\<lambda>a c. 10 * a + digit_val c) 0 s"

definition parse_digits :: "string \<Rightarrow> error + int" where
  "parse_digits s =
     (if s \<noteq> [] \<and> list_all is_digit s then Inr (int (digits_value s)) else Inl ValueError)"

definition py_int_of_str :: "string \<Rightarrow> error + int" where
  "py_int_of_str s =
     (case s of
        [] \<Rightarrow> Inl ValueError
      | c # r \<Rightarrow>
          if c = CHR ''-'' then (case parse_digits r of Inl e \<Rightarrow> Inl e | Inr v \<Rightarrow> Inr (- v))
          else if c = CHR ''+'' then parse_digits r
          else parse_digits s)"

text \<open>
  \<^verbatim>\<open>get_nem_port\<close>. Formatting \<^verbatim>\<open>None\<close> with \<^verbatim>\<open>03\<close> is a \<^verbatim>\<open>TypeError\<close>.
\<close>

definition get_nem_port :: "state \<Rightarrow> iface_ref \<Rightarrow> error + int" where
  "get_nem_port s iface =
     (case get_nem_id s iface of
        None \<Rightarrow> Inl TypeError
      | Some nem_id \<Rightarrow> py_int_of_str (''47'' @ format_03 nem_id))"

section \<open>Networks and their interfaces\<close>

text \<open>\<^verbatim>\<open>add_node\<close>; the lock is not modelled, the calls here follow one another.\<close>

definition add_node :: "state \<Rightarrow> net_ref \<Rightarrow> (error + unit) \<times> state" where
  "add_node s emane_net =
     (if net_id (nets s emane_net) \<in> set (map fst (emane_nets s))
      then (Inl (DuplicateNetwork (net_id (nets s emane_net)) (net_name (nets s emane_net))), s)
      else (Inr (), s\<lparr>emane_nets :=
              AList.update (net_id (nets s emane_net)) emane_net (emane_nets s)\<rparr>))"

text \<open>
  \<^verbatim>\<open>get_ifaces\<close>. \<open>net_iface_entries\<close> is the body of the outer loop for one network:
  the pairs it appends, each with the key \<^verbatim>\<open>(x[1].node.id, x[1].id)\<close> that
  \<^verbatim>\<open>sorted\<close> will read (the node is there: the loop has just checked it). Python's
  \<^verbatim>\<open>sorted\<close> is stable, and so is \<open>sort_key\<close>; tuples compare lexicographically.
\<close>

definition net_iface_entries ::
  "state \<Rightarrow> net_ref \<Rightarrow> ((int \<times> int) \<times> net_ref \<times> iface_ref) list" where
  "net_iface_entries s emane_net =
     (case wireless_model (nets s emane_net) of
        None \<Rightarrow> []
      | Some _ \<Rightarrow>
          List.map_filter
            (\<lambda>iface. case iface_node (ifaces s iface) of
                        None \<Rightarrow> None
                      | Some nd \<Rightarrow>
                          if iface_is_tuntap (ifaces s iface)
                          then Some ((node_id (nodes s nd), iface_id (ifaces s iface)),
                                     (emane_net, iface))
                          else None)
            (net_ifaces (nets s emane_net)))"

definition get_ifaces :: "state \<Rightarrow> (net_ref \<times> iface_ref) list" where
  "get_ifaces s =
     map snd (sort_key fst (concat (map (net_iface_entries s) (map snd (emane_nets s)))))"

section \<open>Shutdown\<close>

definition links_enabled :: "state \<Rightarrow> bool" where
  "links_enabled s = (opt_link_enabled s = 1)"

text \<open>\<^verbatim>\<open>f'pkill -f "emane.+{iface.name}"'\<close>\<close>

definition kill_cmd :: "string \<Rightarrow> string" where
  "kill_cmd name = ''pkill -f '' @ [CHR 0x22] @ ''emane.+'' @ name @ [CHR 0x22]"

text \<open>The loop of \<^verbatim>\<open>shutdown\<close> over the interfaces.\<close>

fun shutdown_ifaces :: "state \<Rightarrow> (net_ref \<times> iface_ref) list \<Rightarrow> (error + unit) \<times> state" where
  "shutdown_ifaces s [] = (Inr (), s)"
| "shutdown_ifaces s ((_, iface) # rest) =
     (case iface_node (ifaces s iface) of
        None \<Rightarrow> (Inl AttributeError, s)
      | Some nd \<Rightarrow>
          if \<not> node_up (nodes s nd) then shutdown_ifaces s rest
          else
            let cmd = kill_cmd (iface_name (ifaces s iface));
                s1 = (if node_is_core (nodes s nd)
                      then s\<lparr>effects := effects s @ [IfaceShutdown iface, NodeCmd nd cmd]\<rparr>
                      else s\<lparr>effects := effects s @ [HostCmd nd cmd]\<rparr>);
                s2 = s1\<lparr>ifaces := (ifaces s1)(iface := (ifaces s1 iface)\<lparr>iface_poshook := None\<rparr>)\<rparr>
            in shutdown_ifaces s2 rest)"

definition shutdown :: "state \<Rightarrow> (error + unit) \<times> state" where
  "shutdown s =
     (if emane_nets s = [] then (Inr (), s)
      else
        let s1 = (if links_enabled s then s\<lparr>effects := effects s @ [LinkMonitorStop]\<rparr> else s)
        in case shutdown_ifaces s1 (get_ifaces s1) of
             (Inl e, s2) \<Rightarrow> (Inl e, s2)
           | (Inr _, s2) \<Rightarrow> (Inr (), s2\<lparr>effects := effects s2 @ [EventManagerShutdown]\<rparr>))"

section \<open>Links between NEMs\<close>

datatype link_types = WIRELESS | WIRED

text \<open>\<^verbatim>\<open>LinkData\<close>, with the fields \<^verbatim>\<open>get_nem_link\<close> sets; message flags are their values.\<close>

record link_data =
  ld_message_type :: int
  ld_type :: link_types
  ld_node1_id :: int
  ld_node2_id :: int
  ld_network_id :: int
  ld_color :: string

text \<open>
  \<^verbatim>\<open>get_nem_link\<close>. \<^verbatim>\<open>iface1.net != iface2.net\<close> compares the two references (or
  \<^verbatim>\<open>None\<close>); \<^verbatim>\<open>.id\<close> of a missing network or node is an \<^verbatim>\<open>AttributeError\<close>.
\<close>

definition get_nem_link :: "state \<Rightarrow> int \<Rightarrow> int \<Rightarrow> int \<Rightarrow> error + link_data option" where
  "get_nem_link s nem1 nem2 flags =
     (case get_iface s nem1 of
        None \<Rightarrow> Inr None
      | Some iface1 \<Rightarrow>
         (case get_iface s nem2 of
            None \<Rightarrow> Inr None
          | Some iface2 \<Rightarrow>
              if iface_net (ifaces s iface1) \<noteq> iface_net (ifaces s iface2) then Inr None
              else
               (case iface_net (ifaces s iface1) of
                  None \<Rightarrow> Inl AttributeError
                | Some emane_net \<Rightarrow>
                   (let color = get_link_color s (net_id (nets s emane_net))
                    in case iface_node (ifaces s iface1) of
                         None \<Rightarrow> Inl AttributeError
                       | Some node1 \<Rightarrow>
                          (case iface_node (ifaces s iface2) of
                             None \<Rightarrow> Inl AttributeError
                           | Some node2 \<Rightarrow>
                               Inr (Some \<lparr>ld_message_type = flags,
                                          ld_type = WIRELESS,
                                          ld_node1_id = node_id (nodes s node1),
                                          ld_node2_id = node_id (nodes s node2),
                                          ld_network_id = net_id (nets s emane_net),
                                          ld_color = color\<rparr>))))))"

section \<open>Positions\<close>

text \<open>
  \<^verbatim>\<open>round\<close> of a finite float (halves go to the even neighbour) and \<^verbatim>\<open>int\<close> of a finite
  float (towards zero). Of an infinity both raise \<^verbatim>\<open>OverflowError\<close>, of a NaN
  \<^verbatim>\<open>ValueError\<close>. \<^verbatim>\<open>int.bit_length\<close> is the number of bits of the absolute value.
\<close>

definition py_round :: "real \<Rightarrow> int" where
  "py_round r =
     (let f = \<lfloor>r\<rfloor>; d = r - of_int f
      in if d < 1 / 2 then f else if 1 / 2 < d then f + 1 else if even f then f else f + 1)"

definition py_trunc :: "real \<Rightarrow> int" where
  "py_trunc r = (if r < 0 then \<lceil>r\<rceil> else \<lfloor>r\<rfloor>)"

definition py_round_float :: "pyfloat \<Rightarrow> error + int" where
  "py_round_float f =
     (case f of
        Finite r \<Rightarrow> Inr (py_round r)
      | PosInf \<Rightarrow> Inl OverflowError
      | NegInf \<Rightarrow> Inl OverflowError
      | NaN \<Rightarrow> Inl ValueError)"

definition py_int_of_float :: "pyfloat \<Rightarrow> error + int" where
  "py_int_of_float f =
     (case f of
        Finite r \<Rightarrow> Inr (py_trunc r)
      | PosInf \<Rightarrow> Inl OverflowError
      | NegInf \<Rightarrow> Inl OverflowError
      | NaN \<Rightarrow> Inl ValueError)"

fun bit_length_nat :: "nat \<Rightarrow> nat" where
  "bit_length_nat n = (if n = 0 then 0 else Suc (bit_length_nat (n div 2)))"

definition bit_length :: "int \<Rightarrow> nat" where
  "bit_length x = bit_length_nat (nat \<bar>x\<bar>)"

text \<open>
  Modelled from the spec: \<^verbatim>\<open>node.position.set(x, y, z)\<close> and
  \<^verbatim>\<open>node.position.set_geo(lon, lat, alt)\<close> are not in the sources at hand; they write
  the three coordinates, and nothing else happens (no hook, no event).
\<close>

definition position_set :: "state \<Rightarrow> node_ref \<Rightarrow> real \<Rightarrow> real \<Rightarrow> real \<Rightarrow> state" where
  "position_set s nd x y z =
     s\<lparr>nodes := (nodes s)(nd := (nodes s nd)\<lparr>node_position :=
          (node_position (nodes s nd))\<lparr>pos_x := Some x, pos_y := Some y, pos_z := Some z\<rparr>\<rparr>)\<rparr>"

definition position_set_geo ::
  "state \<Rightarrow> node_ref \<Rightarrow> pyfloat \<Rightarrow> pyfloat \<Rightarrow> pyfloat \<Rightarrow> state" where
  "position_set_geo s nd lon lat alt =
     s\<lparr>nodes := (nodes s)(nd := (nodes s nd)\<lparr>node_position :=
          (node_position (nodes s nd))\<lparr>pos_lon := Some lon, pos_lat := Some lat,
                                         pos_alt := Some alt\<rparr>\<rparr>)\<rparr>"

text \<open>
  \<^verbatim>\<open>get_nem_position\<close>; \<^verbatim>\<open>node.getposition()\<close>, not in the sources at hand, reads the
  node's \<^verbatim>\<open>(x, y, z)\<close>. The altitude is the node's own when it has one, and
  \<^verbatim>\<open>int(round(alt))\<close> comes after \<^verbatim>\<open>set_geo\<close>.
\<close>

definition get_nem_position ::
  "state \<Rightarrow> iface_ref \<Rightarrow> (error + (int \<times> real \<times> real \<times> int) option) \<times> state" where
  "get_nem_position s iface =
     (case get_nem_id s iface of
        None \<Rightarrow> (Inr None, s)
      | Some nem_id \<Rightarrow>
         (case iface_node (ifaces s iface) of
            None \<Rightarrow> (Inl AttributeError, s)
          | Some nd \<Rightarrow>
             (let p = node_position (nodes s nd)
              in case getgeo s (pos_x p) (pos_y p) (pos_z p) of
                   (lat, lon, alt0) \<Rightarrow>
                     (let alt = (case pos_alt p of None \<Rightarrow> Finite alt0 | Some a \<Rightarrow> a);
                          s1 = position_set_geo s nd (Finite lon) (Finite lat) alt
                      in case py_round_float alt of
                           Inl e \<Rightarrow> (Inl e, s1)
                         | Inr alt_int \<Rightarrow> (Inr (Some (nem_id, lon, lat, alt_int)), s1)))))"

text \<open>The loop of \<^verbatim>\<open>set_nem_positions\<close>, with the list \<^verbatim>\<open>positions\<close> it builds.\<close>

fun collect_positions ::
  "state \<Rightarrow> iface_ref list \<Rightarrow> (int \<times> real \<times> real \<times> int) list
     \<Rightarrow> (error + (int \<times> real \<times> real \<times> int) list) \<times> state" where
  "collect_positions s [] positions = (Inr positions, s)"
| "collect_positions s (iface # rest) positions =
     (case get_nem_position s iface of
        (Inl e, s1) \<Rightarrow> (Inl e, s1)
      | (Inr None, s1) \<Rightarrow> collect_positions s1 rest positions
      | (Inr (Some pos), s1) \<Rightarrow> collect_positions s1 rest (positions @ [pos]))"

definition set_nem_positions :: "state \<Rightarrow> iface_ref list \<Rightarrow> (error + unit) \<times> state" where
  "set_nem_positions s moved_ifaces =
     (if moved_ifaces = [] then (Inr (), s)
      else case collect_positions s moved_ifaces [] of
             (Inl e, s1) \<Rightarrow> (Inl e, s1)
           | (Inr positions, s1) \<Rightarrow>
               (Inr (), s1\<lparr>effects := effects s1 @ [PublishLocations positions]\<rparr>))"

text \<open>
  \<^verbatim>\<open>handlelocationeventtoxyz\<close>. \<^verbatim>\<open>int(x)\<close>, \<^verbatim>\<open>int(y)\<close> and \<^verbatim>\<open>int(z)\<close> come one after
  the other, before the range test, and what they raise is not caught.
  \<^verbatim>\<open>session.get_node\<close> raises \<^verbatim>\<open>CoreError\<close> for an id that is not in
  \<^verbatim>\<open>session.nodes\<close>, which is caught.
\<close>

definition coordinate_check :: "int \<Rightarrow> bool" where
  "coordinate_check x = (16 < bit_length x \<or> x < 0)"

definition handlelocationeventtoxyz ::
  "state \<Rightarrow> int \<Rightarrow> pyfloat \<Rightarrow> pyfloat \<Rightarrow> pyfloat \<Rightarrow> (error + bool) \<times> state" where
  "handlelocationeventtoxyz s nemid lat lon alt =
     (case get_iface s nemid of
        None \<Rightarrow> (Inr False, s)
      | Some iface \<Rightarrow>
         (case iface_node (ifaces s iface) of
            None \<Rightarrow> (Inl AttributeError, s)
          | Some ind \<Rightarrow>
             (let n = node_id (nodes s ind)
              in case getxyz s lat lon alt of
                   (xf, yf, zf) \<Rightarrow>
                    (case py_int_of_float xf of
                       Inl e \<Rightarrow> (Inl e, s)
                     | Inr x \<Rightarrow>
                        (case py_int_of_float yf of
                           Inl e \<Rightarrow> (Inl e, s)
                         | Inr y \<Rightarrow>
                            (case py_int_of_float zf of
                               Inl e \<Rightarrow> (Inl e, s)
                             | Inr z \<Rightarrow>
                                (let xbit_check = coordinate_check x;
                                     ybit_check = coordinate_check y;
                                     zbit_check = coordinate_check z
                                 in if xbit_check \<or> ybit_check \<or> zbit_check
                                    then (Inr False, s)
                                    else
                                     (case map_of (session_nodes s) n of
                                        None \<Rightarrow> (Inr False, s)
                                      | Some nd \<Rightarrow>
                                         (let s1 = position_set s nd (of_int x) (of_int y)
                                                     (of_int z);
                                              s2 = position_set_geo s1 nd lon lat alt
                                          in (Inr True,
                                              s2\<lparr>effects := effects s2 @
                                                   [BroadcastNode nd]\<rparr>))))))))))"

section \<open>What a shutdown is specified to issue\<close>

text \<open>
  The commands of \<^verbatim>\<open>shutdown\<close> for one interface: none when its node is down; for a
  \<^verbatim>\<open>CoreNode\<close> the shutdown of the interface and the kill command run in the node; for
  any other node the kill command run on the host. And the commands of a whole
  \<^verbatim>\<open>shutdown\<close>: none without a registered network; otherwise the stop of the link
  monitor when links are enabled, the commands of the interfaces in the order of
  \<^verbatim>\<open>get_ifaces\<close>, and the shutdown of the event manager.
\<close>

definition iface_shutdown_commands :: "state \<Rightarrow> iface_ref \<Rightarrow> effect list" where
  "iface_shutdown_commands s iface =
     (case iface_node (ifaces s iface) of
        None \<Rightarrow> []
      | Some nd \<Rightarrow>
          if \<not> node_up (nodes s nd) then []
          else if node_is_core (nodes s nd)
          then [IfaceShutdown iface, NodeCmd nd (kill_cmd (iface_name (ifaces s iface)))]
          else [HostCmd nd (kill_cmd (iface_name (ifaces s iface)))])"

definition shutdown_commands :: "state \<Rightarrow> effect list" where
  "shutdown_commands s =
     (if emane_nets s = [] then []
      else (if opt_link_enabled s = 1 then [LinkMonitorStop] else []) @
           concat (map (\<lambda>p. iface_shutdown_commands s (snd p)) (get_ifaces s)) @
           [EventManagerShutdown])"

section \<open>Altitudes that can be rounded\<close>


section \<open>The invariant of the two NEM dictionaries\<close>

text \<open>
  Every NEM id in \<^verbatim>\<open>nems_to_ifaces\<close> leads to an interface that
  \<^verbatim>\<open>ifaces_to_nems\<close> leads back to it, and every interface in
  \<^verbatim>\<open>ifaces_to_nems\<close> leads to a NEM id that \<^verbatim>\<open>nems_to_ifaces\<close> leads back to it.
\<close>

definition nem_bijection :: "state \<Rightarrow> bool" where
  "nem_bijection s =
     (list_all (\<lambda>n. case map_of (nems_to_ifaces s) n of
                       None \<Rightarrow> False
                     | Some i \<Rightarrow> map_of (ifaces_to_nems s) i = Some n)
               (map fst (nems_to_ifaces s)) \<and>
      list_all (\<lambda>i. case map_of (ifaces_to_nems s) i of
                       None \<Rightarrow> False
                     | Some n \<Rightarrow> map_of (nems_to_ifaces s) n = Some i)
               (map fst (ifaces_to_nems s)))"

section \<open>What the interface list is specified to be\<close>

text \<open>
  The key of an interface in the ordering, \<^verbatim>\<open>(node_id, iface_id)\<close>, when it has a node;
  and the pairs \<^verbatim>\<open>get_ifaces\<close> is to return, in the order of registration: every
  \<^verbatim>\<open>TunTap\<close> interface with a node, of every registered network with a model.
\<close>

definition iface_sort_key :: "state \<Rightarrow> iface_ref \<Rightarrow> (int \<times> int) option" where
  "iface_sort_key s iface =
     (case iface_node (ifaces s iface) of
        None \<Rightarrow> None
      | Some nd \<Rightarrow> Some (node_id (nodes s nd), iface_id (ifaces s iface)))"

definition eligible_pairs :: "state \<Rightarrow> (net_ref \<times> iface_ref) list" where
  "eligible_pairs s =
     concat (map (\<lambda>net. map (Pair net)
                           (filter (\<lambda>i. iface_node (ifaces s i) \<noteq> None \<and>
                                         iface_is_tuntap (ifaces s i))
                                   (net_ifaces (nets s net))))
                 (filter (\<lambda>net. wireless_model (nets s net) \<noteq> None)
                         (map snd (emane_nets s))))"

section \<open>A session to run the manager on\<close>

text \<open>
  Two nodes, 2 (a \<^verbatim>\<open>CoreNode\<close>) and 3; three networks, 10 and 11 with the model
  \<^verbatim>\<open>rfpipe\<close> and 12 with none; on network 10 the interfaces 0 (of node 2) and 1 (of node
  3), an interface 3 that is not a \<^verbatim>\<open>TunTap\<close> and an interface 4 with no node; on
  network 11 the interface 2 (of node 2).
\<close>

definition rfpipe :: model where
  "rfpipe = \<lparr>model_name = ''rfpipe'', default_values = [(''external'', ''0'')]\<rparr>"

definition no_position :: position where
  "no_position = \<lparr>pos_x = None, pos_y = None, pos_z = None,
                  pos_lon = None, pos_lat = None, pos_alt = None\<rparr>"

definition demo_nodes :: "node_ref \<Rightarrow> node" where
  "demo_nodes r =
     (if r = 0
      then \<lparr>node_id = 2, node_name = ''n2'', node_up = True, node_is_core = True,
            node_position = no_position\<rparr>
      else \<lparr>node_id = 3, node_name = ''n3'', node_up = True, node_is_core = False,
            node_position = no_position\<rparr>)"

definition demo_ifaces :: "iface_ref \<Rightarrow> iface" where
  "demo_ifaces r =
     (if r = 0 then \<lparr>iface_id = 0, iface_name = ''eth0'', iface_node = Some 0,
                     iface_net = Some 0, iface_is_tuntap = True, iface_poshook = None\<rparr>
      else if r = 1 then \<lparr>iface_id = 0, iface_name = ''eth0'', iface_node = Some 1,
                     iface_net = Some 0, iface_is_tuntap = True, iface_poshook = None\<rparr>
      else if r = 2 then \<lparr>iface_id = 1, iface_name = ''eth1'', iface_node = Some 0,
                     iface_net = Some 1, iface_is_tuntap = True, iface_poshook = None\<rparr>
      else if r = 3 then \<lparr>iface_id = 2, iface_name = ''eth2'', iface_node = Some 1,
                     iface_net = Some 0, iface_is_tuntap = False, iface_poshook = None\<rparr>
      else \<lparr>iface_id = 3, iface_name = ''eth3'', iface_node = None,
            iface_net = Some 0, iface_is_tuntap = True, iface_poshook = None\<rparr>)"

definition demo_nets :: "net_ref \<Rightarrow> emane_net" where
  "demo_nets r =
     (if r = 0 then \<lparr>net_id = 10, net_name = ''wlan10'', wireless_model = Some rfpipe,
                     net_ifaces = [1, 0, 3, 4]\<rparr>
      else if r = 1 then \<lparr>net_id = 11, net_name = ''wlan11'', wireless_model = Some rfpipe,
                     net_ifaces = [2]\<rparr>
      else \<lparr>net_id = 12, net_name = ''wlan12'', wireless_model = None, net_ifaces = []\<rparr>)"

text \<open>The session with a fresh manager.\<close>

definition demo :: state where
  "demo = \<lparr>nodes = demo_nodes, ifaces = demo_ifaces, nets = demo_nets,
           opt_nem_id_start = 1, opt_link_enabled = 1,
           opt_platform_port = None, opt_transform_port = None,
           session_nodes = [(2, 0), (3, 1)],
           getxyz = (\<lambda>lat lon alt. (lon, lat, alt)),
           getgeo = (\<lambda>x y z. (1, 2, 7 / 2)),
           get_link_color = (\<lambda>n. ''#ff0000''),
           nem_file_ok = True,
           models = [(''rfpipe'', rfpipe)],
           iface_config_id = (\<lambda>n i. n * 1000 + i),
           nems_to_ifaces = [], ifaces_to_nems = [], emane_nets = [],
           platformport = 8100, transformport = 8200,
           node_configs = [], node_models = [], effects = []\<rparr>"

text \<open>The three networks registered, as \<^verbatim>\<open>setup\<close> leaves them.\<close>

definition demo_registered :: state where
  "demo_registered = demo\<lparr>emane_nets := [(10, 0), (11, 1), (12, 2)]\<rparr>"

text \<open>
  The interfaces started in the order of \<^verbatim>\<open>get_ifaces\<close>: NEM 1 is interface 0, NEM 2
  is interface 2, NEM 3 is interface 1.
\<close>

definition demo_running :: state where
  "demo_running = demo_registered\<lparr>nems_to_ifaces := [(1, 0), (2, 2), (3, 1)],
                                  ifaces_to_nems := [(0, 1), (2, 2), (1, 3)]\<rparr>"

text \<open>Configurations planted at the interface, node and network levels.\<close>

definition demo_configured :: state where
  "demo_configured =
     demo_registered\<lparr>node_configs :=
       [(2000, [(''rfpipe'', [(''external'', ''1'')])]),
        (3, [(''rfpipe'', [])]),
        (10, [(''rfpipe'', [(''external'', ''net'')])])]\<rparr>"

section \<open>Effective configuration of an interface\<close>

declare next_nem_id_loop.simps [simp del]

lemmas demo_defs = demo_def demo_registered_def demo_running_def demo_configured_def
  demo_nodes_def demo_ifaces_def demo_nets_def rfpipe_def no_position_def

lemma get_config_stored:
  "map_of (models s) mname = Some m \<Longrightarrow>
   get_config s key mname False = Inr (stored_lookup s key mname)"
  by (simp add: get_config_def get_model_def stored_lookup_def split: option.splits)

text \<open>
  C1. For an interface with a node, on a network whose model is a registered one,
  \<open>get_iface_config\<close> returns the first non-empty stored configuration among the keys
  \<open>iface_config_id node_id iface_id\<close>, \<open>node_id\<close> and \<open>network_id\<close>, in this order, and
  the model's default values when none of the three is non-empty.
\<close>

theorem get_iface_config_priority:
  assumes "wireless_model (nets s emane_net) = Some wm"
    and "iface_node (ifaces s iface) = Some nd"
    and "map_of (models s) (model_name wm) = Some m"
  shows "get_iface_config s emane_net iface =
         Inr (first_non_empty
               [stored_lookup s (iface_config_id s (node_id (nodes s nd))
                                   (iface_id (ifaces s iface))) (model_name wm),
                stored_lookup s (node_id (nodes s nd)) (model_name wm),
                stored_lookup s (net_id (nets s emane_net)) (model_name wm)]
               (default_values wm))"
  using assms
  by (simp add: get_iface_config_def get_config_stored not_config_def Let_def
      split: option.splits)

theorem get_iface_config_priority_witness:
  "get_iface_config demo_configured 0 0 = Inr [(''external'', ''1'')] \<and>
   get_iface_config demo_configured 0 1 = Inr [(''external'', ''net'')] \<and>
   get_iface_config demo_configured 1 2 = Inr [(''external'', ''0'')]"
  using get_iface_config_priority [of demo_configured 0 rfpipe 0 0 rfpipe]
    get_iface_config_priority [of demo_configured 0 rfpipe 1 1 rfpipe]
    get_iface_config_priority [of demo_configured 1 rfpipe 2 0 rfpipe]
  by (simp add: demo_defs stored_lookup_def)

section \<open>The NEM dictionaries stay inverse to each other\<close>

lemma list_all_keys_iff:
  "list_all (\<lambda>k. case map_of xs k of None \<Rightarrow> False | Some v \<Rightarrow> P k v) (map fst xs) \<longleftrightarrow>
   (\<forall>k v. map_of xs k = Some v \<longrightarrow> P k v)"
proof
  assume all: "list_all (\<lambda>k. case map_of xs k of None \<Rightarrow> False | Some v \<Rightarrow> P k v) (map fst xs)"
  show "\<forall>k v. map_of xs k = Some v \<longrightarrow> P k v"
  proof (intro allI impI)
    fix k v
    assume kv: "map_of xs k = Some v"
    then have "k \<in> set (map fst xs)"
      by (auto dest: map_of_SomeD intro: rev_image_eqI)
    with all [unfolded list_all_iff]
    have "case map_of xs k of None \<Rightarrow> False | Some v \<Rightarrow> P k v"
      by (rule bspec)
    with kv show "P k v" by simp
  qed
next
  assume r: "\<forall>k v. map_of xs k = Some v \<longrightarrow> P k v"
  show "list_all (\<lambda>k. case map_of xs k of None \<Rightarrow> False | Some v \<Rightarrow> P k v) (map fst xs)"
    unfolding list_all_iff
  proof
    fix k
    assume "k \<in> set (map fst xs)"
    then have "map_of xs k \<noteq> None"
      by (simp add: map_of_eq_None_iff)
    then obtain v where "map_of xs k = Some v" by auto
    with r show "case map_of xs k of None \<Rightarrow> False | Some v \<Rightarrow> P k v" by simp
  qed
qed

lemma nem_bijection_iff:
  "nem_bijection s \<longleftrightarrow>
   (\<forall>n i. map_of (nems_to_ifaces s) n = Some i \<longleftrightarrow> map_of (ifaces_to_nems s) i = Some n)"
  unfolding nem_bijection_def list_all_keys_iff by blast

lemma next_nem_id_loop_fresh: "next_nem_id_loop d n \<notin> set (map fst d)"
proof (induction d n rule: next_nem_id_loop.induct)
  case (1 d nem_id)
  show ?case
  proof (cases "nem_id \<in> set (map fst d)")
    case True
    with 1 show ?thesis by (subst next_nem_id_loop.simps) simp
  next
    case False
    then show ?thesis by (subst next_nem_id_loop.simps) simp
  qed
qed

lemma next_nem_id_loop_unassigned:
  "map_of d (next_nem_id_loop d n) = None"
  using next_nem_id_loop_fresh [of d n] by (simp add: map_of_eq_None_iff)

lemma write_nem_maps:
  "nems_to_ifaces (snd (write_nem s i n)) = nems_to_ifaces s"
  "ifaces_to_nems (snd (write_nem s i n)) = ifaces_to_nems s"
  by (simp_all add: write_nem_def split: option.splits)

lemma next_nem_id_maps:
  "nems_to_ifaces (snd (next_nem_id s iface)) =
     AList.update (next_nem_id_loop (nems_to_ifaces s) (opt_nem_id_start s)) iface (nems_to_ifaces s)"
  "ifaces_to_nems (snd (next_nem_id s iface)) =
     AList.update iface (next_nem_id_loop (nems_to_ifaces s) (opt_nem_id_start s)) (ifaces_to_nems s)"
  by (simp_all add: next_nem_id_def write_nem_def Let_def split: option.splits prod.splits sum.splits)

lemma next_nem_id_bijection:
  assumes "nem_bijection s" and "get_nem_id s iface = None"
  shows "nem_bijection (snd (next_nem_id s iface))"
proof -
  let ?n = "next_nem_id_loop (nems_to_ifaces s) (opt_nem_id_start s)"
  have fresh: "map_of (nems_to_ifaces s) ?n = None"
    by (rule next_nem_id_loop_unassigned)
  have un: "map_of (ifaces_to_nems s) iface = None"
    using assms(2) by (simp add: get_nem_id_def)
  from assms(1) have old: "\<And>n i. map_of (nems_to_ifaces s) n = Some i \<longleftrightarrow> map_of (ifaces_to_nems s) i = Some n"
    by (simp add: nem_bijection_iff)
  show ?thesis
    unfolding nem_bijection_iff next_nem_id_maps update_conv'
  proof (intro allI)
    fix n i
    show "((map_of (nems_to_ifaces s))(?n \<mapsto> iface)) n = Some i \<longleftrightarrow>
          ((map_of (ifaces_to_nems s))(iface \<mapsto> ?n)) i = Some n"
      using fresh un old [of n i] old [of ?n i] old [of n iface]
      by (auto split: if_splits)
  qed
qed

lemma shutdown_ifaces_maps:
  "nems_to_ifaces (snd (shutdown_ifaces s xs)) = nems_to_ifaces s \<and>
   ifaces_to_nems (snd (shutdown_ifaces s xs)) = ifaces_to_nems s"
  by (induction s xs rule: shutdown_ifaces.induct) (auto simp: Let_def split: option.splits)

lemma shutdown_ifaces_maps_result:
  "shutdown_ifaces s xs = (r, s') \<Longrightarrow>
   nems_to_ifaces s' = nems_to_ifaces s \<and> ifaces_to_nems s' = ifaces_to_nems s"
  using shutdown_ifaces_maps [of s xs] by simp

lemma shutdown_maps:
  "nems_to_ifaces (snd (shutdown s)) = nems_to_ifaces s"
  "ifaces_to_nems (snd (shutdown s)) = ifaces_to_nems s"
  by (auto simp: shutdown_def Let_def split: prod.splits sum.splits
      dest!: shutdown_ifaces_maps_result)

lemma get_nem_position_maps:
  "nems_to_ifaces (snd (get_nem_position s i)) = nems_to_ifaces s"
  "ifaces_to_nems (snd (get_nem_position s i)) = ifaces_to_nems s"
  by (auto simp: get_nem_position_def position_set_geo_def Let_def
      split: option.splits prod.splits sum.splits)

lemma collect_positions_maps:
  "nems_to_ifaces (snd (collect_positions s xs ps)) = nems_to_ifaces s \<and>
   ifaces_to_nems (snd (collect_positions s xs ps)) = ifaces_to_nems s"
proof (induction xs arbitrary: s ps)
  case Nil
  show ?case by simp
next
  case (Cons x xs)
  show ?case
    using Cons.IH get_nem_position_maps [of s x]
    by (auto split: prod.splits sum.splits option.splits)
qed

lemma collect_positions_maps_result:
  "collect_positions s xs ps = (r, s') \<Longrightarrow>
   nems_to_ifaces s' = nems_to_ifaces s \<and> ifaces_to_nems s' = ifaces_to_nems s"
  using collect_positions_maps [of s xs ps] by simp

lemma set_nem_positions_maps:
  "nems_to_ifaces (snd (set_nem_positions s xs)) = nems_to_ifaces s"
  "ifaces_to_nems (snd (set_nem_positions s xs)) = ifaces_to_nems s"
  by (auto simp: set_nem_positions_def split: prod.splits sum.splits
      dest!: collect_positions_maps_result)

lemma handlelocationeventtoxyz_maps:
  "nems_to_ifaces (snd (handlelocationeventtoxyz s nem lat lon alt)) = nems_to_ifaces s"
  "ifaces_to_nems (snd (handlelocationeventtoxyz s nem lat lon alt)) = ifaces_to_nems s"
  by (auto simp: handlelocationeventtoxyz_def position_set_def position_set_geo_def Let_def
      split: option.splits prod.splits sum.splits)

lemma add_node_maps:
  "nems_to_ifaces (snd (add_node s net)) = nems_to_ifaces s"
  "ifaces_to_nems (snd (add_node s net)) = ifaces_to_nems s"
  by (simp_all add: add_node_def)

text \<open>
  C2, as it holds of the code. The two NEM dictionaries are inverse to each other in every state the
  manager reaches by its operations, provided \<^verbatim>\<open>next_nem_id\<close> is called only for an
  interface that holds no NEM id: \<^verbatim>\<open>__init__\<close> and \<^verbatim>\<open>reset\<close> establish the invariant,
  \<^verbatim>\<open>next_nem_id\<close> keeps it for such an interface, the other operations leave both
  dictionaries alone, and under the invariant no interface is stored at two NEM ids.
\<close>

theorem nem_bijection_preserved:
  "nem_bijection (init s) \<and>
   nem_bijection (reset s) \<and>
   (nem_bijection s \<longrightarrow>
      (get_nem_id s iface = None \<longrightarrow> nem_bijection (snd (next_nem_id s iface))) \<and>
      nem_bijection (snd (add_node s net)) \<and>
      nem_bijection (snd (shutdown s)) \<and>
      nem_bijection (snd (set_nem_positions s moved)) \<and>
      nem_bijection (snd (handlelocationeventtoxyz s nem lat lon alt)) \<and>
      (\<forall>n n' i. get_iface s n = Some i \<and> get_iface s n' = Some i \<longrightarrow> n = n'))"
proof -
  have "nem_bijection (init s)" "nem_bijection (reset s)"
    by (simp_all add: nem_bijection_def init_def reset_def)
  moreover have "nem_bijection (snd (next_nem_id s iface))"
    if "nem_bijection s" "get_nem_id s iface = None"
    using that by (rule next_nem_id_bijection)
  moreover have "nem_bijection (snd (add_node s net))"
    "nem_bijection (snd (shutdown s))"
    "nem_bijection (snd (set_nem_positions s moved))"
    "nem_bijection (snd (handlelocationeventtoxyz s nem lat lon alt))"
    if "nem_bijection s"
    using that
    by (simp_all add: nem_bijection_iff add_node_maps shutdown_maps set_nem_positions_maps
        handlelocationeventtoxyz_maps)
  moreover have "n = n'"
    if "nem_bijection s" "get_iface s n = Some i" "get_iface s n' = Some i" for n n' i
    using that by (simp add: nem_bijection_iff get_iface_def)
  ultimately show ?thesis by blast
qed

theorem nem_bijection_preserved_witness:
  "nem_bijection demo \<and> get_nem_id demo 0 = None \<and>
   nem_bijection (snd (next_nem_id demo 0)) \<and>
   nems_to_ifaces (snd (next_nem_id demo 0)) = [(1, 0)] \<and>
   ifaces_to_nems (snd (next_nem_id demo 0)) = [(0, 1)] \<and>
   nem_bijection demo_running \<and> get_nem_id demo_running 3 = None \<and>
   nem_bijection (snd (next_nem_id demo_running 3)) \<and>
   nems_to_ifaces (snd (next_nem_id demo_running 3)) = [(1, 0), (2, 2), (3, 1), (4, 3)] \<and>
   nem_bijection (reset demo_running)"
  using nem_bijection_preserved [of demo 0] nem_bijection_preserved [of demo_running 3]
  by (simp add: demo_defs nem_bijection_def get_nem_id_def next_nem_id_maps
      next_nem_id_loop.simps)

text \<open>
  Allocating twice for the same interface: NEM 1 still leads to interface 0, which now
  leads to NEM 2.
\<close>

theorem nem_bijection_counterexample:
  "nem_bijection (snd (next_nem_id demo 0)) \<and>
   nems_to_ifaces (snd (next_nem_id (snd (next_nem_id demo 0)) 0)) = [(1, 0), (2, 0)] \<and>
   ifaces_to_nems (snd (next_nem_id (snd (next_nem_id demo 0)) 0)) = [(0, 2)] \<and>
   \<not> nem_bijection (snd (next_nem_id (snd (next_nem_id demo 0)) 0))"
  by (simp add: demo_defs nem_bijection_def next_nem_id_maps next_nem_id_loop.simps
      next_nem_id_def write_nem_def)

section \<open>The port of a NEM is 47 followed by its id\<close>

declare digits.simps [simp del]

lemma digit_val_digit_char: "d < 10 \<Longrightarrow> digit_val (digit_char d) = d"
  by (simp add: digit_val_def digit_char_def)

lemma is_digit_digit_char: "d < 10 \<Longrightarrow> is_digit (digit_char d)"
  by (simp add: is_digit_def digit_char_def)

lemma digits_all_digits: "list_all is_digit (digits n)"
proof (induction n rule: digits.induct)
  case (1 n)
  show ?case
  proof (cases "n < 10")
    case True
    then show ?thesis by (subst digits.simps) (simp add: is_digit_digit_char)
  next
    case False
    with 1 show ?thesis by (subst digits.simps) (simp add: is_digit_digit_char)
  qed
qed

lemma digits_not_empty: "digits n \<noteq> []"
  by (subst digits.simps) simp

lemma foldl_digits:
  "foldl (\<lambda>a c. 10 * a + digit_val c) a (digits n) = a * 10 ^ length (digits n) + n"
proof (induction n arbitrary: a rule: digits.induct)
  case (1 n)
  show ?case
  proof (cases "n < 10")
    case True
    then show ?thesis by (subst (1 2) digits.simps) (simp add: digit_val_digit_char)
  next
    case False
    then have "foldl (\<lambda>a c. 10 * a + digit_val c) a (digits n) =
        10 * (a * 10 ^ length (digits (n div 10)) + n div 10) + n mod 10"
      using 1 [of a] by (subst digits.simps) (simp add: digit_val_digit_char)
    moreover have "length (digits n) = Suc (length (digits (n div 10)))"
      using False by (subst digits.simps) simp
    ultimately show ?thesis by (simp add: algebra_simps)
  qed
qed

lemma foldl_zeros:
  "foldl (\<lambda>a c. 10 * a + digit_val c) a (replicate k CHR ''0'') = a * 10 ^ k"
  by (induction k arbitrary: a) (simp_all add: digit_val_def)

lemma length_digits_le3: "n < 1000 \<Longrightarrow> length (digits n) \<le> 3"
  by (subst digits.simps, simp, subst digits.simps, simp, subst digits.simps, simp)

lemma format_03_nonneg:
  "0 \<le> n \<Longrightarrow> format_03 n = replicate (3 - length (digits (nat n))) CHR ''0'' @ digits (nat n)"
  by (simp add: format_03_def)

lemma py_int_of_str_47:
  assumes "list_all is_digit r"
  shows "py_int_of_str (''47'' @ r) = Inr (int (foldl (\<lambda>a c. 10 * a + digit_val c) 47 r))"
  using assms
  by (simp add: py_int_of_str_def parse_digits_def digits_value_def is_digit_def digit_val_def)

lemma get_nem_port_nonneg:
  assumes "get_nem_id s iface = Some n" and "0 \<le> n"
  shows "get_nem_port s iface =
         Inr (47 * 10 ^ max 3 (length (digits (nat n))) + n)"
proof -
  let ?ds = "digits (nat n)"
  let ?k = "3 - length ?ds"
  have "list_all is_digit (replicate ?k CHR ''0'')"
    by (auto simp: list_all_iff is_digit_def)
  then have "list_all is_digit (replicate ?k CHR ''0'' @ ?ds)"
    by (simp add: digits_all_digits)
  then have "py_int_of_str (''47'' @ format_03 n) =
      Inr (int (foldl (\<lambda>a c. 10 * a + digit_val c) 47 (replicate ?k CHR ''0'' @ ?ds)))"
    using assms(2) by (simp only: format_03_nonneg py_int_of_str_47)
  also have "foldl (\<lambda>a c. 10 * a + digit_val c) 47 (replicate ?k CHR ''0'' @ ?ds) =
      47 * 10 ^ ?k * 10 ^ length ?ds + nat n"
    by (simp only: foldl_append foldl_zeros foldl_digits)
  also have "47 * 10 ^ ?k * 10 ^ length ?ds = (47::nat) * 10 ^ max 3 (length ?ds)"
    by (simp add: power_add [symmetric] max_def)
  finally show ?thesis
    using assms by (simp add: get_nem_port_def)
qed

text \<open>
  C3, as it holds of the code. For an interface whose NEM id \<open>n\<close> is between 0 and 999,
  \<open>get_nem_port\<close> returns \<open>47000 + n\<close>.
\<close>

theorem get_nem_port_three_digits:
  assumes "get_nem_id s iface = Some n" and "0 \<le> n" and "n \<le> 999"
  shows "get_nem_port s iface = Inr (47000 + n)"
proof -
  have "nat n < 1000" using assms by simp
  then have "max 3 (length (digits (nat n))) = 3"
    using length_digits_le3 [of "nat n"] by simp
  then show ?thesis
    using get_nem_port_nonneg [OF assms(1,2)] by simp
qed

theorem get_nem_port_three_digits_witness:
  "get_nem_id demo_running 1 = Some 3 \<and> get_nem_port demo_running 1 = Inr 47003"
  using get_nem_port_three_digits [of demo_running 1 3]
  by (simp add: demo_defs get_nem_id_def)

text \<open>
  With \<^verbatim>\<open>nem_id_start\<close> at 1000 the first interface gets the NEM id 1000, and its port
  is 471000, not 48000.
\<close>

theorem get_nem_port_counterexample:
  "fst (next_nem_id (demo\<lparr>opt_nem_id_start := 1000\<rparr>) 0) = Inr 1000 \<and>
   get_nem_id (snd (next_nem_id (demo\<lparr>opt_nem_id_start := 1000\<rparr>) 0)) 0 = Some 1000 \<and>
   get_nem_port (snd (next_nem_id (demo\<lparr>opt_nem_id_start := 1000\<rparr>) 0)) 0 = Inr 471000"
  by (simp add: demo_defs next_nem_id_def write_nem_def next_nem_id_loop.simps
      get_nem_id_def get_nem_port_def format_03_def digits.simps digit_char_def
      py_int_of_str_def parse_digits_def digits_value_def is_digit_def digit_val_def)

section \<open>Shutting down twice\<close>

lemma set_net_iface_entries:
  "set (net_iface_entries s net) =
     {((node_id (nodes s nd), iface_id (ifaces s i)), (net, i)) | i nd.
        wireless_model (nets s net) \<noteq> None \<and> i \<in> set (net_ifaces (nets s net)) \<and>
        iface_node (ifaces s i) = Some nd \<and> iface_is_tuntap (ifaces s i)}"
  by (auto simp: net_iface_entries_def List.map_filter_def image_iff split: option.splits if_splits)

lemma set_get_ifaces:
  "set (get_ifaces s) =
     {(net, i). net \<in> snd ` set (emane_nets s) \<and> wireless_model (nets s net) \<noteq> None \<and>
        i \<in> set (net_ifaces (nets s net)) \<and> iface_node (ifaces s i) \<noteq> None \<and>
        iface_is_tuntap (ifaces s i)}"
  by (auto simp: get_ifaces_def set_net_iface_entries image_iff) force+

lemma get_ifaces_have_nodes:
  "(net, i) \<in> set (get_ifaces s) \<Longrightarrow> iface_node (ifaces s i) \<noteq> None"
  by (simp add: set_get_ifaces)

lemma get_ifaces_cong:
  assumes "nodes t = nodes s" and "nets t = nets s" and "emane_nets t = emane_nets s"
    and "\<And>i. iface_node (ifaces t i) = iface_node (ifaces s i)"
    and "\<And>i. iface_id (ifaces t i) = iface_id (ifaces s i)"
    and "\<And>i. iface_is_tuntap (ifaces t i) = iface_is_tuntap (ifaces s i)"
  shows "get_ifaces t = get_ifaces s"
proof -
  have "net_iface_entries t = net_iface_entries s"
    by (rule ext) (simp add: net_iface_entries_def assms cong: option.case_cong if_cong)
  then show ?thesis by (simp add: get_ifaces_def assms)
qed


lemma shutdown_ifaces_static:
  "nodes (snd (shutdown_ifaces s xs)) = nodes s \<and>
   nets (snd (shutdown_ifaces s xs)) = nets s \<and>
   emane_nets (snd (shutdown_ifaces s xs)) = emane_nets s \<and>
   opt_link_enabled (snd (shutdown_ifaces s xs)) = opt_link_enabled s \<and>
   (\<forall>i. iface_node (ifaces (snd (shutdown_ifaces s xs)) i) = iface_node (ifaces s i) \<and>
        iface_name (ifaces (snd (shutdown_ifaces s xs)) i) = iface_name (ifaces s i) \<and>
        iface_id (ifaces (snd (shutdown_ifaces s xs)) i) = iface_id (ifaces s i) \<and>
        iface_is_tuntap (ifaces (snd (shutdown_ifaces s xs)) i) = iface_is_tuntap (ifaces s i))"
  by (induction s xs rule: shutdown_ifaces.induct) (auto simp: Let_def split: option.splits)

lemma iface_shutdown_commands_cong:
  assumes "nodes t = nodes s"
    and "\<And>i. iface_node (ifaces t i) = iface_node (ifaces s i)"
    and "\<And>i. iface_name (ifaces t i) = iface_name (ifaces s i)"
  shows "iface_shutdown_commands t = iface_shutdown_commands s"
  by (rule ext) (simp add: iface_shutdown_commands_def assms split: option.splits)

lemma shutdown_ifaces_commands:
  assumes "\<forall>x \<in> set xs. iface_node (ifaces s (snd x)) \<noteq> None"
  shows "fst (shutdown_ifaces s xs) = Inr () \<and>
         effects (snd (shutdown_ifaces s xs)) =
           effects s @ concat (map (\<lambda>p. iface_shutdown_commands s (snd p)) xs)"
  using assms
proof (induction xs arbitrary: s)
  case Nil
  show ?case by simp
next
  case (Cons x xs)
  obtain net iface where x: "x = (net, iface)" by (cases x)
  from Cons.prems x obtain nd where nd: "iface_node (ifaces s iface) = Some nd"
    by auto
  have rest: "\<forall>x \<in> set xs. iface_node (ifaces s (snd x)) \<noteq> None"
    using Cons.prems by simp
  show ?case
  proof (cases "node_up (nodes s nd)")
    case False
    then have "iface_shutdown_commands s iface = []"
      by (simp add: iface_shutdown_commands_def nd)
    with Cons.IH [OF rest] x nd False show ?thesis by simp
  next
    case True
    let ?cmds = "iface_shutdown_commands s iface"
    let ?s2 = "s\<lparr>effects := effects s @ ?cmds,
                  ifaces := (ifaces s)(iface := (ifaces s iface)\<lparr>iface_poshook := None\<rparr>)\<rparr>"
    have step: "shutdown_ifaces s (x # xs) = shutdown_ifaces ?s2 xs"
      using x nd True by (simp add: Let_def iface_shutdown_commands_def)
    have same: "iface_shutdown_commands ?s2 = iface_shutdown_commands s"
      by (rule iface_shutdown_commands_cong) simp_all
    have "\<forall>x \<in> set xs. iface_node (ifaces ?s2 (snd x)) \<noteq> None"
      using rest nd by simp
    from Cons.IH [OF this] show ?thesis
      unfolding step same using x by simp
  qed
qed

lemma shutdown_effects:
  "fst (shutdown s) = Inr () \<and> effects (snd (shutdown s)) = effects s @ shutdown_commands s"
proof (cases "emane_nets s = []")
  case True
  then show ?thesis by (simp add: shutdown_def shutdown_commands_def)
next
  case False
  define lm where "lm = (if opt_link_enabled s = 1 then [LinkMonitorStop] else [])"
  define s1 where "s1 = s\<lparr>effects := effects s @ lm\<rparr>"
  have s1: "(if links_enabled s then s\<lparr>effects := effects s @ [LinkMonitorStop]\<rparr> else s) = s1"
    by (simp add: s1_def lm_def links_enabled_def)
  have gi: "get_ifaces s1 = get_ifaces s"
    by (rule get_ifaces_cong) (simp_all add: s1_def)
  have cm: "iface_shutdown_commands s1 = iface_shutdown_commands s"
    by (rule iface_shutdown_commands_cong) (simp_all add: s1_def)
  have "\<forall>x \<in> set (get_ifaces s1). iface_node (ifaces s1 (snd x)) \<noteq> None"
    using get_ifaces_have_nodes [of _ _ s1] by auto
  from shutdown_ifaces_commands [OF this]
  have r: "fst (shutdown_ifaces s1 (get_ifaces s1)) = Inr ()"
    "effects (snd (shutdown_ifaces s1 (get_ifaces s1))) =
       effects s @ lm @ concat (map (\<lambda>p. iface_shutdown_commands s (snd p)) (get_ifaces s))"
    by (simp_all add: cm gi) (simp add: s1_def)
  show ?thesis
    using False r unfolding shutdown_def Let_def s1 shutdown_commands_def
    by (simp add: split_beta lm_def split: sum.splits)
qed

lemma shutdown_static:
  "nodes (snd (shutdown s)) = nodes s \<and>
   nets (snd (shutdown s)) = nets s \<and>
   emane_nets (snd (shutdown s)) = emane_nets s \<and>
   opt_link_enabled (snd (shutdown s)) = opt_link_enabled s \<and>
   (\<forall>i. iface_node (ifaces (snd (shutdown s)) i) = iface_node (ifaces s i) \<and>
        iface_name (ifaces (snd (shutdown s)) i) = iface_name (ifaces s i) \<and>
        iface_id (ifaces (snd (shutdown s)) i) = iface_id (ifaces s i) \<and>
        iface_is_tuntap (ifaces (snd (shutdown s)) i) = iface_is_tuntap (ifaces s i))"
proof -
  define s1 where
    "s1 = (if links_enabled s then s\<lparr>effects := effects s @ [LinkMonitorStop]\<rparr> else s)"
  have "nodes s1 = nodes s" "nets s1 = nets s" "emane_nets s1 = emane_nets s"
    "opt_link_enabled s1 = opt_link_enabled s" "ifaces s1 = ifaces s"
    by (simp_all add: s1_def)
  with shutdown_ifaces_static [of s1 "get_ifaces s1"] show ?thesis
    unfolding shutdown_def Let_def s1_def [symmetric]
    by (simp add: split_beta split: sum.splits)
qed

lemma shutdown_commands_stable:
  "shutdown_commands (snd (shutdown s)) = shutdown_commands s"
proof -
  have gi: "get_ifaces (snd (shutdown s)) = get_ifaces s"
    by (rule get_ifaces_cong) (simp_all add: shutdown_static)
  have cm: "iface_shutdown_commands (snd (shutdown s)) = iface_shutdown_commands s"
    by (rule iface_shutdown_commands_cong) (simp_all add: shutdown_static)
  show ?thesis
    by (simp add: shutdown_commands_def gi cm shutdown_static)
qed

text \<open>
  C4, as it holds of the code. Calling \<open>shutdown\<close> twice in a row is safe: neither call
  raises. Each of the two calls issues exactly the commands \<open>shutdown_commands\<close> of the
  state before the first call, so the second call repeats the first. Without a registered
  network these are no commands and \<open>shutdown\<close> changes nothing. With one, they end
  with the shutdown of the event manager and contain, for every interface of
  \<open>get_ifaces\<close> whose node is up, the kill command, run in the node after the shutdown
  of the interface when the node is a \<^verbatim>\<open>CoreNode\<close> and on the host otherwise.
\<close>

theorem shutdown_twice:
  "fst (shutdown s) = Inr () \<and>
   effects (snd (shutdown s)) = effects s @ shutdown_commands s \<and>
   fst (shutdown (snd (shutdown s))) = Inr () \<and>
   effects (snd (shutdown (snd (shutdown s)))) =
     effects (snd (shutdown s)) @ shutdown_commands s \<and>
   (emane_nets s = [] \<longrightarrow> shutdown_commands s = [] \<and> shutdown s = (Inr (), s)) \<and>
   (emane_nets s \<noteq> [] \<longrightarrow> last (shutdown_commands s) = EventManagerShutdown) \<and>
   (\<forall>p \<in> set (get_ifaces s). \<forall>nd.
      iface_node (ifaces s (snd p)) = Some nd \<and> node_up (nodes s nd) \<longrightarrow>
        (if node_is_core (nodes s nd)
         then IfaceShutdown (snd p) \<in> set (shutdown_commands s) \<and>
              NodeCmd nd (kill_cmd (iface_name (ifaces s (snd p)))) \<in> set (shutdown_commands s)
         else HostCmd nd (kill_cmd (iface_name (ifaces s (snd p)))) \<in> set (shutdown_commands s)))"
proof (intro conjI)
  show "fst (shutdown s) = Inr ()"
    and "effects (snd (shutdown s)) = effects s @ shutdown_commands s"
    using shutdown_effects [of s] by simp_all
  show "fst (shutdown (snd (shutdown s))) = Inr ()"
    and "effects (snd (shutdown (snd (shutdown s)))) =
      effects (snd (shutdown s)) @ shutdown_commands s"
    using shutdown_effects [of "snd (shutdown s)"] by (simp_all add: shutdown_commands_stable)
  show "emane_nets s = [] \<longrightarrow> shutdown_commands s = [] \<and> shutdown s = (Inr (), s)"
    by (simp add: shutdown_commands_def shutdown_def)
  show "emane_nets s \<noteq> [] \<longrightarrow> last (shutdown_commands s) = EventManagerShutdown"
    by (simp add: shutdown_commands_def)
  show "\<forall>p \<in> set (get_ifaces s). \<forall>nd.
      iface_node (ifaces s (snd p)) = Some nd \<and> node_up (nodes s nd) \<longrightarrow>
        (if node_is_core (nodes s nd)
         then IfaceShutdown (snd p) \<in> set (shutdown_commands s) \<and>
              NodeCmd nd (kill_cmd (iface_name (ifaces s (snd p)))) \<in> set (shutdown_commands s)
         else HostCmd nd (kill_cmd (iface_name (ifaces s (snd p)))) \<in> set (shutdown_commands s))"
  proof (intro ballI allI impI)
    fix p nd
    assume p: "p \<in> set (get_ifaces s)"
      and nd: "iface_node (ifaces s (snd p)) = Some nd \<and> node_up (nodes s nd)"
    from p have "get_ifaces s \<noteq> []" by auto
    then have nets: "emane_nets s \<noteq> []"
      by (auto simp: get_ifaces_def)
    have "set (iface_shutdown_commands s (snd p)) \<subseteq> set (shutdown_commands s)"
      using p nets by (auto simp: shutdown_commands_def)
    then show "if node_is_core (nodes s nd)
         then IfaceShutdown (snd p) \<in> set (shutdown_commands s) \<and>
              NodeCmd nd (kill_cmd (iface_name (ifaces s (snd p)))) \<in> set (shutdown_commands s)
         else HostCmd nd (kill_cmd (iface_name (ifaces s (snd p)))) \<in> set (shutdown_commands s)"
      using nd by (auto simp: iface_shutdown_commands_def)
  qed
qed

theorem shutdown_twice_witness:
  "emane_nets (reset demo_running) = [] \<and>
   shutdown (reset demo_running) = (Inr (), reset demo_running) \<and>
   emane_nets demo_registered = [(10, 0), (11, 1), (12, 2)] \<and>
   get_ifaces demo_registered = [(0, 0), (1, 2), (0, 1)] \<and>
   iface_node (ifaces demo_registered 0) = Some 0 \<and>
   node_up (nodes demo_registered 0) \<and> node_is_core (nodes demo_registered 0) \<and>
   iface_node (ifaces demo_registered 1) = Some 1 \<and>
   node_up (nodes demo_registered 1) \<and> \<not> node_is_core (nodes demo_registered 1) \<and>
   shutdown_commands demo_registered =
     [LinkMonitorStop,
      IfaceShutdown 0, NodeCmd 0 (kill_cmd ''eth0''),
      IfaceShutdown 2, NodeCmd 0 (kill_cmd ''eth1''),
      HostCmd 1 (kill_cmd ''eth0''),
      EventManagerShutdown] \<and>
   effects (snd (shutdown demo_registered)) = shutdown_commands demo_registered \<and>
   effects (snd (shutdown (snd (shutdown demo_registered)))) =
     shutdown_commands demo_registered @ shutdown_commands demo_registered"
proof -
  have c: "shutdown_commands demo_registered =
     [LinkMonitorStop,
      IfaceShutdown 0, NodeCmd 0 (kill_cmd ''eth0''),
      IfaceShutdown 2, NodeCmd 0 (kill_cmd ''eth1''),
      HostCmd 1 (kill_cmd ''eth0''),
      EventManagerShutdown]"
    by (simp add: demo_defs shutdown_commands_def iface_shutdown_commands_def get_ifaces_def
        net_iface_entries_def List.map_filter_def)
  have g: "get_ifaces demo_registered = [(0, 0), (1, 2), (0, 1)]"
    by (simp add: demo_defs get_ifaces_def net_iface_entries_def List.map_filter_def)
  have e: "effects demo_registered = []"
    by (simp add: demo_defs)
  show ?thesis
    using shutdown_twice [of "reset demo_running"] shutdown_twice [of demo_registered]
    unfolding c g e
    by (simp add: reset_def) (simp add: demo_defs)
qed

text \<open>
  With networks registered and nodes up, the second call kills the daemons and shuts the
  event manager down again.
\<close>

theorem shutdown_counterexample:
  "effects (snd (shutdown demo_registered)) =
     [LinkMonitorStop,
      IfaceShutdown 0, NodeCmd 0 (kill_cmd ''eth0''),
      IfaceShutdown 2, NodeCmd 0 (kill_cmd ''eth1''),
      HostCmd 1 (kill_cmd ''eth0''),
      EventManagerShutdown] \<and>
   effects (snd (shutdown (snd (shutdown demo_registered)))) =
     effects (snd (shutdown demo_registered)) @
     [LinkMonitorStop,
      IfaceShutdown 0, NodeCmd 0 (kill_cmd ''eth0''),
      IfaceShutdown 2, NodeCmd 0 (kill_cmd ''eth1''),
      HostCmd 1 (kill_cmd ''eth0''),
      EventManagerShutdown]"
  by (simp add: demo_defs shutdown_def links_enabled_def get_ifaces_def net_iface_entries_def
      List.map_filter_def Let_def)

section \<open>Reset\<close>

lemma reset_clears:
  "emane_nets (reset s) = [] \<and> nems_to_ifaces (reset s) = [] \<and> ifaces_to_nems (reset s) = [] \<and>
   next_nem_id_loop (nems_to_ifaces (reset s)) (opt_nem_id_start (reset s)) = opt_nem_id_start s"
  by (simp add: reset_def next_nem_id_loop.simps)

lemma reset_ports:
  "platformport (reset s) = platformport s \<and> transformport (reset s) = transformport s"
  by (simp add: reset_def)

text \<open>
  C5. \<open>reset\<close> empties the network dictionary and both NEM dictionaries, so that
  allocation starts again at \<^verbatim>\<open>nem_id_start\<close>, but it does not touch the port counters:
  a manager whose counters were advanced to 8105 and 8207 (from the configured 8100
  and 8200) still has them there after \<open>reset\<close>.
\<close>

theorem reset_leaves_port_counters:
  "platformport (init demo) = 8100 \<and> transformport (init demo) = 8200 \<and>
   emane_nets (reset (demo_running\<lparr>platformport := 8105, transformport := 8207\<rparr>)) = [] \<and>
   nems_to_ifaces (reset (demo_running\<lparr>platformport := 8105, transformport := 8207\<rparr>)) = [] \<and>
   ifaces_to_nems (reset (demo_running\<lparr>platformport := 8105, transformport := 8207\<rparr>)) = [] \<and>
   platformport (reset (demo_running\<lparr>platformport := 8105, transformport := 8207\<rparr>)) = 8105 \<and>
   transformport (reset (demo_running\<lparr>platformport := 8105, transformport := 8207\<rparr>)) = 8207"
  by (simp add: reset_def init_def demo_defs)

section \<open>Registering a network twice\<close>

lemma update_new_key:
  "k \<notin> set (map fst xs) \<Longrightarrow> AList.update k v xs = xs @ [(k, v)]"
  by (induction xs) auto

lemma add_node_duplicate_fails:
  "net_id (nets s net) \<in> set (map fst (emane_nets s)) \<Longrightarrow>
   add_node s net = (Inl (DuplicateNetwork (net_id (nets s net)) (net_name (nets s net))), s)"
  by (simp add: add_node_def)

text \<open>
  C8. \<open>add_node\<close> raises \<open>DuplicateNetwork\<close>, and changes nothing, when the id of the
  network is already registered. After a successful \<open>add_node\<close> of a network with id
  \<open>k\<close>, an \<open>add_node\<close> of a network with the same id raises it and leaves the state as
  it was, with exactly the one entry for \<open>k\<close>, the first network.
\<close>

theorem add_node_duplicate:
  "(net_id (nets s net) \<in> set (map fst (emane_nets s)) \<longrightarrow>
      add_node s net =
        (Inl (DuplicateNetwork (net_id (nets s net)) (net_name (nets s net))), s)) \<and>
   (add_node s net1 = (Inr (), s1) \<and> net_id (nets s net2) = net_id (nets s net1) \<longrightarrow>
      add_node s1 net2 =
        (Inl (DuplicateNetwork (net_id (nets s net2)) (net_name (nets s net2))), s1) \<and>
      filter (\<lambda>e. fst e = net_id (nets s net1)) (emane_nets s1) =
        [(net_id (nets s net1), net1)] \<and>
      map_of (emane_nets s1) (net_id (nets s net1)) = Some net1)"
proof (intro conjI impI)
  show "add_node s net =
      (Inl (DuplicateNetwork (net_id (nets s net)) (net_name (nets s net))), s)"
    if "net_id (nets s net) \<in> set (map fst (emane_nets s))"
    using that by (rule add_node_duplicate_fails)
next
  assume a: "add_node s net1 = (Inr (), s1) \<and> net_id (nets s net2) = net_id (nets s net1)"
  let ?k = "net_id (nets s net1)"
  from a have new: "?k \<notin> set (map fst (emane_nets s))"
    by (auto simp: add_node_def split: if_splits)
  with a have s1: "s1 = s\<lparr>emane_nets := emane_nets s @ [(?k, net1)]\<rparr>"
    by (auto simp: add_node_def update_new_key)
  show "add_node s1 net2 =
      (Inl (DuplicateNetwork (net_id (nets s net2)) (net_name (nets s net2))), s1)"
    using a by (simp add: s1 add_node_def)
  have "filter (\<lambda>e. fst e = ?k) (emane_nets s) = []"
    using new by (force simp: filter_empty_conv)
  then show "filter (\<lambda>e. fst e = ?k) (emane_nets s1) = [(?k, net1)]"
    by (simp add: s1)
  show "map_of (emane_nets s1) ?k = Some net1"
    using new by (simp add: s1 map_of_eq_None_iff [THEN iffD2] map_add_def)
qed

theorem add_node_duplicate_witness:
  "add_node demo 0 = (Inr (), demo\<lparr>emane_nets := [(10, 0)]\<rparr>) \<and>
   net_id (nets demo 0) = 10 \<and>
   net_id (nets (demo\<lparr>emane_nets := [(10, 0)]\<rparr>) 0)
     \<in> set (map fst (emane_nets (demo\<lparr>emane_nets := [(10, 0)]\<rparr>))) \<and>
   add_node (demo\<lparr>emane_nets := [(10, 0)]\<rparr>) 0 =
     (Inl (DuplicateNetwork 10 ''wlan10''), demo\<lparr>emane_nets := [(10, 0)]\<rparr>) \<and>
   emane_nets (snd (add_node (demo\<lparr>emane_nets := [(10, 0)]\<rparr>) 0)) = [(10, 0)]"
  using add_node_duplicate [of demo 0 0 "demo\<lparr>emane_nets := [(10, 0)]\<rparr>" 0]
    add_node_duplicate [of "demo\<lparr>emane_nets := [(10, 0)]\<rparr>" 0 0 demo 0]
  by (simp add: add_node_def demo_defs)

section \<open>Links between NEMs of one network\<close>

text \<open>
  C7. \<open>get_nem_link\<close> returns \<^verbatim>\<open>None\<close>, and no error, when one of the NEM ids has no
  interface and when the two interfaces are not on the same network. When they are on
  the same network, and both have a node, it returns a wireless \<open>link_data\<close> with the
  two node ids, the id of the network and the colour the session gives this id.
\<close>

theorem get_nem_link_result:
  "(get_iface s nem1 = None \<or> get_iface s nem2 = None \<longrightarrow>
      get_nem_link s nem1 nem2 flags = Inr None) \<and>
   (get_iface s nem1 = Some iface1 \<and> get_iface s nem2 = Some iface2 \<and>
    iface_net (ifaces s iface1) \<noteq> iface_net (ifaces s iface2) \<longrightarrow>
      get_nem_link s nem1 nem2 flags = Inr None) \<and>
   (get_iface s nem1 = Some iface1 \<and> get_iface s nem2 = Some iface2 \<and>
    iface_net (ifaces s iface1) = Some emane_net \<and>
    iface_net (ifaces s iface2) = Some emane_net \<and>
    iface_node (ifaces s iface1) = Some node1 \<and>
    iface_node (ifaces s iface2) = Some node2 \<longrightarrow>
      get_nem_link s nem1 nem2 flags =
        Inr (Some \<lparr>ld_message_type = flags,
                   ld_type = WIRELESS,
                   ld_node1_id = node_id (nodes s node1),
                   ld_node2_id = node_id (nodes s node2),
                   ld_network_id = net_id (nets s emane_net),
                   ld_color = get_link_color s (net_id (nets s emane_net))\<rparr>))"
  by (auto simp: get_nem_link_def Let_def split: option.splits)

theorem get_nem_link_result_witness:
  "get_iface demo_running 9 = None \<and>
   get_nem_link demo_running 9 1 0 = Inr None \<and>
   get_nem_link demo_running 1 9 0 = Inr None \<and>
   get_iface demo_running 1 = Some 0 \<and> get_iface demo_running 2 = Some 2 \<and>
   iface_net (ifaces demo_running 0) = Some 0 \<and> iface_net (ifaces demo_running 2) = Some 1 \<and>
   get_nem_link demo_running 1 2 0 = Inr None \<and>
   get_iface demo_running 3 = Some 1 \<and> iface_net (ifaces demo_running 1) = Some 0 \<and>
   get_nem_link demo_running 1 3 0 =
     Inr (Some \<lparr>ld_message_type = 0, ld_type = WIRELESS, ld_node1_id = 2, ld_node2_id = 3,
                ld_network_id = 10, ld_color = ''#ff0000''\<rparr>)"
  using get_nem_link_result [of demo_running 9 1 0]
    get_nem_link_result [of demo_running 1 9 0]
    get_nem_link_result [of demo_running 1 2 0 0 2]
    get_nem_link_result [of demo_running 1 3 0 0 1 0 0 1]
  by (simp add: demo_defs get_iface_def)

section \<open>Inbound location events\<close>

declare bit_length_nat.simps [simp del]

lemma bit_length_nat_le: "bit_length_nat n \<le> k \<longleftrightarrow> n < 2 ^ k"
proof (induction n arbitrary: k rule: bit_length_nat.induct)
  case (1 n)
  show ?case
  proof (cases "n = 0")
    case True
    then show ?thesis by (subst bit_length_nat.simps) simp
  next
    case False
    show ?thesis
    proof (cases k)
      case 0
      with False show ?thesis by (subst bit_length_nat.simps) simp
    next
      case (Suc k')
      have "bit_length_nat n \<le> k \<longleftrightarrow> bit_length_nat (n div 2) \<le> k'"
        using False Suc by (subst bit_length_nat.simps) simp
      also have "\<dots> \<longleftrightarrow> n div 2 < 2 ^ k'"
        using False by (rule 1)
      also have "\<dots> \<longleftrightarrow> n < 2 ^ k"
        using Suc by auto
      finally show ?thesis .
    qed
  qed
qed

lemma coordinate_check_iff: "coordinate_check x \<longleftrightarrow> x < 0 \<or> 65535 < x"
proof -
  have "16 < bit_length_nat (nat \<bar>x\<bar>) \<longleftrightarrow> \<not> nat \<bar>x\<bar> < 2 ^ 16"
    using bit_length_nat_le [of "nat \<bar>x\<bar>" 16] by auto
  then show ?thesis
    by (auto simp: coordinate_check_def bit_length_def)
qed

lemma position_all_updated:
  "(p::position)\<lparr>pos_x := a, pos_y := b, pos_z := c, pos_lon := d, pos_lat := e, pos_alt := f\<rparr> =
   \<lparr>pos_x = a, pos_y = b, pos_z = c, pos_lon = d, pos_lat = e, pos_alt = f\<rparr>"
  by (cases p) simp

text \<open>
  C6, as it holds of the code. For an event whose NEM has no interface,
  \<open>handlelocationeventtoxyz\<close> returns false and changes nothing. For an event whose NEM
  has an interface with a node: when the three converted coordinates are finite, with
  \<open>(x, y, z)\<close> their truncations to integers, it returns false and changes nothing (no
  broadcast, no position written) when one of them is negative or above 65535, or when
  the session has no node with the id of the interface's node; otherwise it returns
  true, having written \<open>(x, y, z)\<close> and \<open>(lon, lat, alt)\<close> into the position of the
  session's node and broadcast this node, and nothing else: no location is published
  and no interface is touched. When a converted coordinate is an infinity or a NaN, it
  raises \<^verbatim>\<open>OverflowError\<close> or \<^verbatim>\<open>ValueError\<close> and changes nothing.
\<close>

theorem handlelocationeventtoxyz_result:
  "(get_iface s nemid = None \<longrightarrow>
      handlelocationeventtoxyz s nemid lat lon alt = (Inr False, s)) \<and>
   (get_iface s nemid = Some iface \<and> iface_node (ifaces s iface) = Some ind \<and>
    getxyz s lat lon alt = (Finite xr, Finite yr, Finite zr) \<longrightarrow>
      (if py_trunc xr < 0 \<or> 65535 < py_trunc xr \<or> py_trunc yr < 0 \<or> 65535 < py_trunc yr \<or>
          py_trunc zr < 0 \<or> 65535 < py_trunc zr
       then handlelocationeventtoxyz s nemid lat lon alt = (Inr False, s)
       else case map_of (session_nodes s) (node_id (nodes s ind)) of
              None \<Rightarrow> handlelocationeventtoxyz s nemid lat lon alt = (Inr False, s)
            | Some nd \<Rightarrow>
                handlelocationeventtoxyz s nemid lat lon alt =
                  (Inr True,
                   s\<lparr>nodes := (nodes s)(nd := (nodes s nd)\<lparr>node_position :=
                        \<lparr>pos_x = Some (of_int (py_trunc xr)),
                         pos_y = Some (of_int (py_trunc yr)),
                         pos_z = Some (of_int (py_trunc zr)),
                         pos_lon = Some lon, pos_lat = Some lat, pos_alt = Some alt\<rparr>\<rparr>),
                      effects := effects s @ [BroadcastNode nd]\<rparr>))) \<and>
   (get_iface s nemid = Some iface \<and> iface_node (ifaces s iface) = Some ind \<and>
    getxyz s lat lon alt = (xf, yf, zf) \<and>
    \<not> (is_finite xf \<and> is_finite yf \<and> is_finite zf) \<longrightarrow>
      snd (handlelocationeventtoxyz s nemid lat lon alt) = s \<and>
      (fst (handlelocationeventtoxyz s nemid lat lon alt) = Inl OverflowError \<or>
       fst (handlelocationeventtoxyz s nemid lat lon alt) = Inl ValueError))"
proof (intro conjI impI)
  assume "get_iface s nemid = None"
  then show "handlelocationeventtoxyz s nemid lat lon alt = (Inr False, s)"
    by (simp add: handlelocationeventtoxyz_def)
next
  assume "get_iface s nemid = Some iface \<and> iface_node (ifaces s iface) = Some ind \<and>
    getxyz s lat lon alt = (Finite xr, Finite yr, Finite zr)"
  then show "if py_trunc xr < 0 \<or> 65535 < py_trunc xr \<or> py_trunc yr < 0 \<or>
          65535 < py_trunc yr \<or> py_trunc zr < 0 \<or> 65535 < py_trunc zr
       then handlelocationeventtoxyz s nemid lat lon alt = (Inr False, s)
       else case map_of (session_nodes s) (node_id (nodes s ind)) of
              None \<Rightarrow> handlelocationeventtoxyz s nemid lat lon alt = (Inr False, s)
            | Some nd \<Rightarrow>
                handlelocationeventtoxyz s nemid lat lon alt =
                  (Inr True,
                   s\<lparr>nodes := (nodes s)(nd := (nodes s nd)\<lparr>node_position :=
                        \<lparr>pos_x = Some (of_int (py_trunc xr)),
                         pos_y = Some (of_int (py_trunc yr)),
                         pos_z = Some (of_int (py_trunc zr)),
                         pos_lon = Some lon, pos_lat = Some lat, pos_alt = Some alt\<rparr>\<rparr>),
                      effects := effects s @ [BroadcastNode nd]\<rparr>)"
    by (auto simp: handlelocationeventtoxyz_def py_int_of_float_def coordinate_check_iff
        position_set_def position_set_geo_def position_all_updated Let_def
        split: option.splits)
next
  assume a: "get_iface s nemid = Some iface \<and> iface_node (ifaces s iface) = Some ind \<and>
    getxyz s lat lon alt = (xf, yf, zf) \<and>
    \<not> (is_finite xf \<and> is_finite yf \<and> is_finite zf)"
  then show "snd (handlelocationeventtoxyz s nemid lat lon alt) = s"
    by (auto simp: handlelocationeventtoxyz_def py_int_of_float_def is_finite_def Let_def
        split: pyfloat.splits)
  from a show "fst (handlelocationeventtoxyz s nemid lat lon alt) = Inl OverflowError \<or>
       fst (handlelocationeventtoxyz s nemid lat lon alt) = Inl ValueError"
    by (auto simp: handlelocationeventtoxyz_def py_int_of_float_def is_finite_def Let_def
        split: pyfloat.splits)
qed

theorem handlelocationeventtoxyz_result_witness:
  "get_iface demo_running 9 = None \<and>
   handlelocationeventtoxyz demo_running 9 (Finite 20) (Finite 10) (Finite 30) =
     (Inr False, demo_running) \<and>
   get_iface demo_running 1 = Some 0 \<and> iface_node (ifaces demo_running 0) = Some 0 \<and>
   getxyz demo_running (Finite 0) (Finite 0) (Finite 70000) =
     (Finite 0, Finite 0, Finite 70000) \<and>
   py_trunc 70000 = 70000 \<and>
   handlelocationeventtoxyz demo_running 1 (Finite 0) (Finite 0) (Finite 70000) =
     (Inr False, demo_running) \<and>
   getxyz demo_running (Finite (41 / 2)) (Finite (107 / 10)) (Finite 30) =
     (Finite (107 / 10), Finite (41 / 2), Finite 30) \<and>
   py_trunc (107 / 10) = 10 \<and> py_trunc (41 / 2) = 20 \<and> py_trunc 30 = 30 \<and>
   map_of (session_nodes demo_running) (node_id (nodes demo_running 0)) = Some 0 \<and>
   fst (handlelocationeventtoxyz demo_running 1 (Finite (41 / 2)) (Finite (107 / 10))
          (Finite 30)) = Inr True \<and>
   effects (snd (handlelocationeventtoxyz demo_running 1 (Finite (41 / 2)) (Finite (107 / 10))
                   (Finite 30))) = [BroadcastNode 0] \<and>
   node_position (nodes (snd (handlelocationeventtoxyz demo_running 1 (Finite (41 / 2))
                                (Finite (107 / 10)) (Finite 30))) 0) =
     \<lparr>pos_x = Some 10, pos_y = Some 20, pos_z = Some 30,
      pos_lon = Some (Finite (107 / 10)), pos_lat = Some (Finite (41 / 2)),
      pos_alt = Some (Finite 30)\<rparr> \<and>
   getxyz demo_running (Finite 0) (Finite 0) PosInf = (Finite 0, Finite 0, PosInf) \<and>
   \<not> is_finite PosInf \<and>
   handlelocationeventtoxyz demo_running 1 (Finite 0) (Finite 0) PosInf =
     (Inl OverflowError, demo_running) \<and>
   handlelocationeventtoxyz demo_running 1 NaN (Finite 0) (Finite 0) =
     (Inl ValueError, demo_running)"
  using handlelocationeventtoxyz_result [of demo_running 9 "Finite 20" "Finite 10" "Finite 30"]
    handlelocationeventtoxyz_result [of demo_running 1 "Finite 0" "Finite 0" "Finite 70000"
      0 0 0 0 70000]
    handlelocationeventtoxyz_result [of demo_running 1 "Finite (41 / 2)" "Finite (107 / 10)"
      "Finite 30" 0 0 "107 / 10" "41 / 2" 30]
    handlelocationeventtoxyz_result [of demo_running 1 "Finite 0" "Finite 0" PosInf
      0 0 _ _ _ "Finite 0" "Finite 0" PosInf]
  by (simp add: demo_defs get_iface_def py_trunc_def is_finite_def
      handlelocationeventtoxyz_def py_int_of_float_def)

text \<open>
  An event with coordinates in range for a NEM that has no interface: nothing is
  written or broadcast, and the result is false. An event whose altitude is infinite,
  for a NEM that has an interface: the conversion to an integer raises.
\<close>

theorem handlelocationeventtoxyz_counterexample:
  "getxyz demo (Finite 20) (Finite 10) (Finite 30) = (Finite 10, Finite 20, Finite 30) \<and>
   py_int_of_float (Finite 10) = Inr 10 \<and> py_int_of_float (Finite 20) = Inr 20 \<and>
   py_int_of_float (Finite 30) = Inr 30 \<and>
   \<not> coordinate_check 10 \<and> \<not> coordinate_check 20 \<and> \<not> coordinate_check 30 \<and>
   get_iface demo 1 = None \<and>
   handlelocationeventtoxyz demo 1 (Finite 20) (Finite 10) (Finite 30) = (Inr False, demo) \<and>
   get_iface demo_running 1 = Some 0 \<and>
   getxyz demo_running (Finite 0) (Finite 0) PosInf = (Finite 0, Finite 0, PosInf) \<and>
   handlelocationeventtoxyz demo_running 1 (Finite 0) (Finite 0) PosInf =
     (Inl OverflowError, demo_running)"
  by (simp add: demo_defs get_iface_def py_trunc_def py_int_of_float_def coordinate_check_iff
      handlelocationeventtoxyz_def)

section \<open>The interface list\<close>

lemma map_snd_net_iface_entries:
  "map snd (net_iface_entries s net) =
     (if wireless_model (nets s net) \<noteq> None
      then map (Pair net) (filter (\<lambda>i. iface_node (ifaces s i) \<noteq> None \<and>
                                        iface_is_tuntap (ifaces s i))
                                  (net_ifaces (nets s net)))
      else [])"
proof -
  have "map snd (List.map_filter
          (\<lambda>iface. case iface_node (ifaces s iface) of
                      None \<Rightarrow> None
                    | Some nd \<Rightarrow>
                        if iface_is_tuntap (ifaces s iface)
                        then Some ((node_id (nodes s nd), iface_id (ifaces s iface)), (net, iface))
                        else None) xs) =
        map (Pair net) (filter (\<lambda>i. iface_node (ifaces s i) \<noteq> None \<and>
                                     iface_is_tuntap (ifaces s i)) xs)" for xs
    by (induction xs) (auto simp: List.map_filter_def split: option.splits)
  then show ?thesis
    by (auto simp: net_iface_entries_def split: option.splits)
qed

lemma concat_map_filter_nonempty:
  "(\<And>x. \<not> P x \<Longrightarrow> f x = []) \<Longrightarrow> concat (map f xs) = concat (map f (filter P xs))"
  by (induction xs) auto

lemma map_snd_entries_eligible:
  "map snd (concat (map (net_iface_entries s) (map snd (emane_nets s)))) = eligible_pairs s"
proof -
  have "map snd (concat (map (net_iface_entries s) (map snd (emane_nets s)))) =
        concat (map (\<lambda>net. map snd (net_iface_entries s net)) (map snd (emane_nets s)))"
    by (simp add: map_concat comp_def)
  also have "\<dots> = concat (map (\<lambda>net. map snd (net_iface_entries s net))
                      (filter (\<lambda>net. wireless_model (nets s net) \<noteq> None)
                              (map snd (emane_nets s))))"
    by (rule concat_map_filter_nonempty) (simp add: map_snd_net_iface_entries)
  also have "\<dots> = eligible_pairs s"
    unfolding eligible_pairs_def
    by (rule arg_cong [where f = concat], rule map_cong)
       (simp_all add: map_snd_net_iface_entries)
  finally show ?thesis .
qed

lemma entry_key:
  assumes "e \<in> set (concat (map (net_iface_entries s) nets_list))"
  shows "iface_sort_key s (snd (snd e)) = Some (fst e)"
proof -
  from assms obtain net where "e \<in> set (net_iface_entries s net)"
    by auto
  then show ?thesis
    by (auto simp: net_iface_entries_def List.map_filter_def iface_sort_key_def
        split: option.splits if_splits)
qed

text \<open>
  C9, as it holds of the code. \<open>get_ifaces\<close> returns exactly the pairs of a registered network that has
  a model and an interface of it that has a node and is a \<^verbatim>\<open>TunTap\<close>, each as often as
  it is listed, and in ascending order of \<^verbatim>\<open>(node_id, iface_id)\<close>.
\<close>

theorem get_ifaces_sorted:
  "mset (get_ifaces s) = mset (eligible_pairs s) \<and>
   (\<exists>ks. map (\<lambda>p. iface_sort_key s (snd p)) (get_ifaces s) = map Some ks \<and> sorted ks)"
proof
  let ?L = "concat (map (net_iface_entries s) (map snd (emane_nets s)))"
  have "mset (get_ifaces s) = image_mset snd (mset (sort_key fst ?L))"
    by (simp add: get_ifaces_def)
  also have "\<dots> = mset (map snd ?L)"
    by simp
  finally show "mset (get_ifaces s) = mset (eligible_pairs s)"
    by (simp only: map_snd_entries_eligible)
  have "map (\<lambda>p. iface_sort_key s (snd p)) (get_ifaces s) =
        map (\<lambda>e. iface_sort_key s (snd (snd e))) (sort_key fst ?L)"
    by (simp add: get_ifaces_def comp_def)
  also have "\<dots> = map (\<lambda>e. Some (fst e)) (sort_key fst ?L)"
  proof (rule map_cong)
    show "sort_key fst ?L = sort_key fst ?L" ..
  next
    fix e
    assume "e \<in> set (sort_key fst ?L)"
    then have "e \<in> set ?L"
      by (simp only: set_sort)
    then show "iface_sort_key s (snd (snd e)) = Some (fst e)"
      by (rule entry_key)
  qed
  also have "\<dots> = map Some (map fst (sort_key fst ?L))"
    by (simp add: comp_def)
  finally have "map (\<lambda>p. iface_sort_key s (snd p)) (get_ifaces s) =
        map Some (map fst (sort_key fst ?L))" .
  moreover have "sorted (map fst (sort_key fst ?L))"
    by (rule sorted_sort_key)
  ultimately show "\<exists>ks. map (\<lambda>p. iface_sort_key s (snd p)) (get_ifaces s) = map Some ks \<and>
      sorted ks"
    by blast
qed

text \<open>
  Interface 3 has a node and is listed by network 10, which is registered and has a
  model, but it is not a \<^verbatim>\<open>TunTap\<close>: \<open>get_ifaces\<close> leaves it out.
\<close>

theorem get_ifaces_counterexample:
  "map_of (emane_nets demo_registered) 10 = Some 0 \<and>
   wireless_model (nets demo_registered 0) = Some rfpipe \<and>
   3 \<in> set (net_ifaces (nets demo_registered 0)) \<and>
   iface_node (ifaces demo_registered 3) = Some 1 \<and>
   get_ifaces demo_registered = [(0, 0), (1, 2), (0, 1)] \<and>
   (0, 3) \<notin> set (get_ifaces demo_registered)"
  by (simp add: demo_defs get_ifaces_def net_iface_entries_def List.map_filter_def)

section \<open>Publishing the positions of moved interfaces\<close>








end
